theory Spec2Isabelle
  imports Main "HOL-Library.Word"
begin

unbundle bit_operations_syntax

section \<open>Strings, bytes and errors of the platform\<close>

text \<open>
  A JavaScript string is a sequence of UTF-16 code units. \<open>js\<close> writes a literal of
  the source (ASCII text) as such a sequence.
\<close>

type_synonym js_string = "16 word list"
type_synonym byte = "8 word"

definition js :: "string \<Rightarrow> js_string" where
  "js s = map (\<lambda>c. word_of_nat (of_char c)) s"

datatype error =
    Error js_string
  | RangeError js_string
  | RequestError nat js_string

fun message :: "error \<Rightarrow> js_string" where
  "message (Error m) = m"
| "message (RangeError m) = m"
| "message (RequestError status m) = m"

definition startsWith :: "js_string \<Rightarrow> js_string \<Rightarrow> bool" where
  "startsWith s search = (take (length search) s = search)"

subsection \<open>TextEncoder\<close>

text \<open>
  \<open>TextEncoder.encode\<close>: the code units are read as code points (a surrogate pair is
  one code point, a lone surrogate is replaced by U+FFFD), each written in UTF-8.
\<close>

definition isHighSurrogate :: "16 word \<Rightarrow> bool" where
  "isHighSurrogate u = (0xD800 \<le> u \<and> u \<le> 0xDBFF)"

definition isLowSurrogate :: "16 word \<Rightarrow> bool" where
  "isLowSurrogate u = (0xDC00 \<le> u \<and> u \<le> 0xDFFF)"

definition scalarValue :: "16 word \<Rightarrow> nat" where
  "scalarValue u = (if isHighSurrogate u \<or> isLowSurrogate u then 0xFFFD else unat u)"

fun codePoints :: "js_string \<Rightarrow> nat list" where
  "codePoints [] = []"
| "codePoints [u] = [scalarValue u]"
| "codePoints (u # v # rest) =
     (if isHighSurrogate u \<and> isLowSurrogate v
      then (0x10000 + (unat u - 0xD800) * 0x400 + (unat v - 0xDC00)) # codePoints rest
      else scalarValue u # codePoints (v # rest))"

definition utf8 :: "nat \<Rightarrow> byte list" where
  "utf8 cp =
     (if cp < 0x80 then [word_of_nat cp]
      else if cp < 0x800 then
        [word_of_nat (0xC0 + cp div 0x40), word_of_nat (0x80 + cp mod 0x40)]
      else if cp < 0x10000 then
        [word_of_nat (0xE0 + cp div 0x1000), word_of_nat (0x80 + cp div 0x40 mod 0x40),
         word_of_nat (0x80 + cp mod 0x40)]
      else
        [word_of_nat (0xF0 + cp div 0x40000), word_of_nat (0x80 + cp div 0x1000 mod 0x40),
         word_of_nat (0x80 + cp div 0x40 mod 0x40), word_of_nat (0x80 + cp mod 0x40)])"

definition TextEncoder_encode :: "js_string \<Rightarrow> byte list" where
  "TextEncoder_encode s = concat (map utf8 (codePoints s))"

subsection \<open>Numbers as text, padding, typed arrays\<close>

definition digitChar :: "nat \<Rightarrow> 16 word" where
  "digitChar d = (if d < 10 then 0x30 + word_of_nat d else 0x57 + word_of_nat d)"

text \<open>
  \<open>Number.prototype.toString(radix)\<close> on a non-negative integer; the source calls it
  with radix 10 (the template literal) and 16.
\<close>

function Number_toString :: "nat \<Rightarrow> nat \<Rightarrow> js_string" where
  "Number_toString radix n =
     (if n < radix \<or> radix < 2 then [digitChar n]
      else Number_toString radix (n div radix) @ [digitChar (n mod radix)])"
  by pat_completeness auto
termination
  by (relation "measure snd") auto

declare Number_toString.simps [simp del]

text \<open>\<open>padStart(targetLength, fill)\<close> with a fill string of one code unit.\<close>

definition padStart :: "nat \<Rightarrow> 16 word \<Rightarrow> js_string \<Rightarrow> js_string" where
  "padStart targetLength fill s = replicate (targetLength - length s) fill @ s"

text \<open>
  \<open>new Uint8Array(n)\<close> is \<open>n\<close> zero bytes; \<open>target.set(source, offset)\<close> overwrites
  the bytes from \<open>offset\<close> on and raises a RangeError when the source does not fit.
\<close>

definition Uint8Array_new :: "nat \<Rightarrow> byte list" where
  "Uint8Array_new n = replicate n 0"

definition Uint8Array_set :: "byte list \<Rightarrow> byte list \<Rightarrow> nat \<Rightarrow> error + byte list" where
  "Uint8Array_set target source offset =
     (if length target < offset + length source
      then Inl (RangeError (js ''offset is out of bounds''))
      else Inr (take offset target @ source @ drop (offset + length source) target))"

subsection \<open>The SHA-1 digest of the platform\<close>

text \<open>
  \<open>crypto.subtle.digest("SHA-1", bytes)\<close> as FIPS 180-4 defines it: the message is
  padded to whole blocks of 64 bytes, each block is expanded to 80 words of 32 bits
  and run through 80 rounds.
\<close>

definition rotl :: "nat \<Rightarrow> 32 word \<Rightarrow> 32 word" where
  "rotl n x = (push_bit n x) OR (drop_bit (32 - n) x)"

fun be32 :: "byte list \<Rightarrow> 32 word" where
  "be32 [b0, b1, b2, b3] =
     push_bit 24 (ucast b0) OR push_bit 16 (ucast b1) OR push_bit 8 (ucast b2) OR ucast b3"
| "be32 _ = 0"

definition bytes32 :: "32 word \<Rightarrow> byte list" where
  "bytes32 w = [ucast (drop_bit 24 w), ucast (drop_bit 16 w), ucast (drop_bit 8 w), ucast w]"

definition bytes64 :: "64 word \<Rightarrow> byte list" where
  "bytes64 w =
     [ucast (drop_bit 56 w), ucast (drop_bit 48 w), ucast (drop_bit 40 w), ucast (drop_bit 32 w),
      ucast (drop_bit 24 w), ucast (drop_bit 16 w), ucast (drop_bit 8 w), ucast w]"

fun chunks :: "nat \<Rightarrow> nat \<Rightarrow> 'a list \<Rightarrow> 'a list list" where
  "chunks 0 n xs = []"
| "chunks (Suc k) n xs = take n xs # chunks k n (drop n xs)"

definition sha1_pad :: "byte list \<Rightarrow> byte list" where
  "sha1_pad m =
     m @ [0x80] @ replicate ((119 - length m mod 64) mod 64) 0 @
     bytes64 (word_of_nat (8 * length m))"

fun sha1_schedule :: "nat \<Rightarrow> 32 word list \<Rightarrow> 32 word list" where
  "sha1_schedule 0 w = w"
| "sha1_schedule (Suc k) w =
     sha1_schedule k
       (w @ [rotl 1 (w ! (length w - 3) XOR w ! (length w - 8) XOR
                     w ! (length w - 14) XOR w ! (length w - 16))])"

type_synonym sha1_state = "32 word \<times> 32 word \<times> 32 word \<times> 32 word \<times> 32 word"

definition sha1_f :: "nat \<Rightarrow> 32 word \<Rightarrow> 32 word \<Rightarrow> 32 word \<Rightarrow> 32 word" where
  "sha1_f t b c d =
     (if t < 20 then (b AND c) OR (NOT b AND d)
      else if t < 40 then b XOR c XOR d
      else if t < 60 then (b AND c) OR (b AND d) OR (c AND d)
      else b XOR c XOR d)"

definition sha1_k :: "nat \<Rightarrow> 32 word" where
  "sha1_k t =
     (if t < 20 then 0x5A827999
      else if t < 40 then 0x6ED9EBA1
      else if t < 60 then 0x8F1BBCDC
      else 0xCA62C1D6)"

fun sha1_rounds :: "nat \<Rightarrow> 32 word list \<Rightarrow> sha1_state \<Rightarrow> sha1_state" where
  "sha1_rounds t [] s = s"
| "sha1_rounds t (w # ws) (a, b, c, d, e) =
     sha1_rounds (t + 1) ws
       (rotl 5 a + sha1_f t b c d + e + sha1_k t + w, a, rotl 30 b, c, d)"

fun sha1_block :: "sha1_state \<Rightarrow> byte list \<Rightarrow> sha1_state" where
  "sha1_block (h0, h1, h2, h3, h4) blk =
     (case sha1_rounds 0 (sha1_schedule 64 (map be32 (chunks 16 4 blk))) (h0, h1, h2, h3, h4) of
        (a, b, c, d, e) \<Rightarrow> (h0 + a, h1 + b, h2 + c, h3 + d, h4 + e))"

definition sha1 :: "byte list \<Rightarrow> byte list" where
  "sha1 m =
     (case foldl sha1_block
             (0x67452301, 0xEFCDAB89, 0x98BADCFE, 0x10325476, 0xC3D2E1F0)
             (chunks (length (sha1_pad m) div 64) 64 (sha1_pad m)) of
        (h0, h1, h2, h3, h4) \<Rightarrow>
          bytes32 h0 @ bytes32 h1 @ bytes32 h2 @ bytes32 h3 @ bytes32 h4)"

section \<open>The content hash: \<open>gitBlobSha1\<close>\<close>

text \<open>
  \<open>gitBlobSha1(content)\<close> of main.ts: encode the content, build the header
  \<open>blob <byte length>\0\<close>, copy header and content into one new byte array, digest
  it, and print every byte of the digest as two hexadecimal digits.
\<close>

definition gitBlobSha1 :: "js_string \<Rightarrow> error + js_string" where
  "gitBlobSha1 content =
     (let contentBytes = TextEncoder_encode content;
          header = js ''blob '' @ Number_toString 10 (length contentBytes) @ [0];
          headerBytes = TextEncoder_encode header;
          blob = Uint8Array_new (length headerBytes + length contentBytes)
      in case Uint8Array_set blob headerBytes 0 of
           Inl e \<Rightarrow> Inl e
         | Inr blob1 \<Rightarrow>
             (case Uint8Array_set blob1 contentBytes (length headerBytes) of
                Inl e \<Rightarrow> Inl e
              | Inr blob2 \<Rightarrow>
                  Inr (concat (map (\<lambda>b. padStart 2 0x30 (Number_toString 16 (unat b)))
                                   (sha1 blob2)))))"

text \<open>
  What the specification says the hash is: the lowercase hexadecimal digest of the
  header bytes followed by the content bytes.
\<close>

definition spec_hexDigit :: "nat \<Rightarrow> 16 word" where
  "spec_hexDigit d = js ''0123456789abcdef'' ! d"

definition spec_lowerHex :: "byte list \<Rightarrow> js_string" where
  "spec_lowerHex bs = concat (map (\<lambda>b. [spec_hexDigit (unat b div 16), spec_hexDigit (unat b mod 16)]) bs)"

definition spec_blobDigest :: "js_string \<Rightarrow> js_string" where
  "spec_blobDigest content =
     spec_lowerHex
       (sha1 (TextEncoder_encode
                (js ''blob '' @ Number_toString 10 (length (TextEncoder_encode content)) @ [0])
              @ TextEncoder_encode content))"

section \<open>The vault\<close>

text \<open>
  Obsidian's abstract files: a \<open>TFile\<close> has a path, a \<open>TFolder\<close> a path and its
  children. The vault answers \<open>getAbstractFileByPath\<close> from its index of paths and
  \<open>read\<close> from the stored contents; reading a file whose content is gone fails.
\<close>

datatype TAbstractFile =
    TFile js_string
  | TFolder js_string "TAbstractFile list"

fun path :: "TAbstractFile \<Rightarrow> js_string" where
  "path (TFile p) = p"
| "path (TFolder p children) = p"

record Vault =
  fileMap :: "(js_string \<times> TAbstractFile) list"
  stored :: "(js_string \<times> js_string) list"

definition getAbstractFileByPath :: "Vault \<Rightarrow> js_string \<Rightarrow> TAbstractFile option" where
  "getAbstractFileByPath v p = map_of (fileMap v) p"

definition vault_read :: "Vault \<Rightarrow> TAbstractFile \<Rightarrow> error + js_string" where
  "vault_read v f =
     (case map_of (stored v) (path f) of
        None \<Rightarrow> Inl (Error (js ''ENOENT: no such file or directory''))
      | Some c \<Rightarrow> Inr c)"

text \<open>
  \<open>getAllFilesInFolder\<close>: the files of a folder and of its subfolders, in the order of
  the children. \<open>filesOfChildren\<close> is the loop over \<open>folder.children\<close>.
\<close>

fun getAllFilesInFolder :: "TAbstractFile \<Rightarrow> TAbstractFile list"
  and filesOfChildren :: "TAbstractFile list \<Rightarrow> TAbstractFile list \<Rightarrow> TAbstractFile list"
where
  "getAllFilesInFolder (TFolder p children) = filesOfChildren children []"
| "getAllFilesInFolder (TFile p) = []"
| "filesOfChildren [] files = files"
| "filesOfChildren (TFile p # rest) files = filesOfChildren rest (files @ [TFile p])"
| "filesOfChildren (TFolder p children # rest) files =
     filesOfChildren rest (files @ getAllFilesInFolder (TFolder p children))"

section \<open>Settings and the repository URL\<close>

record GitHubPublisherSettings =
  githubToken :: js_string
  repoUrl :: js_string
  repoFolder :: js_string
  repoBranch :: js_string
  selectedPaths :: "js_string list"
  syncInterval :: int
  lastSyncDate :: "js_string option"

text \<open>
  \<open>parseRepoUrl\<close> matches \<open>/github\.com[:/](.+?)\/(.+?)(\.git)?$/i\<close>. The search tries
  every start position from the left. At a position the literal \<open>github.com\<close> must
  stand (letters in either case), then \<open>:\<close> or \<open>/\<close>; the rest, which must hold no
  line terminator, is the owner up to the first \<open>/\<close> after its first character and
  then the non-empty repository name, without a final \<open>.git\<close> when something
  precedes it.
\<close>

definition canonicalize :: "16 word \<Rightarrow> 16 word" where
  "canonicalize c = (if 0x61 \<le> c \<and> c \<le> 0x7A then c - 0x20 else c)"

fun matchLiteral :: "js_string \<Rightarrow> js_string \<Rightarrow> js_string option" where
  "matchLiteral [] s = Some s"
| "matchLiteral (p # ps) [] = None"
| "matchLiteral (p # ps) (c # cs) =
     (if canonicalize c = canonicalize p then matchLiteral ps cs else None)"

definition isLineTerminator :: "16 word \<Rightarrow> bool" where
  "isLineTerminator c = (c = 0x0A \<or> c = 0x0D \<or> c = 0x2028 \<or> c = 0x2029)"

definition stripDotGit :: "js_string \<Rightarrow> js_string" where
  "stripDotGit t =
     (if 4 < length t \<and> map canonicalize (drop (length t - 4) t) = map canonicalize (js ''.git'')
      then take (length t - 4) t else t)"

definition matchOwnerRepo :: "js_string \<Rightarrow> (js_string \<times> js_string) option" where
  "matchOwnerRepo r =
     (if list_ex isLineTerminator r then None
      else case r of
          [] \<Rightarrow> None
        | c # cs \<Rightarrow>
            (case dropWhile (\<lambda>x. x \<noteq> 0x2F) cs of
               [] \<Rightarrow> None
             | slash # t \<Rightarrow>
                 if t = [] then None
                 else Some (c # takeWhile (\<lambda>x. x \<noteq> 0x2F) cs, stripDotGit t)))"

definition matchHere :: "js_string \<Rightarrow> (js_string \<times> js_string) option" where
  "matchHere s =
     (case matchLiteral (js ''github.com'') s of
        None \<Rightarrow> None
      | Some [] \<Rightarrow> None
      | Some (sep # r) \<Rightarrow> if sep = 0x3A \<or> sep = 0x2F then matchOwnerRepo r else None)"

fun regexSearch :: "js_string \<Rightarrow> (js_string \<times> js_string) option" where
  "regexSearch [] = None"
| "regexSearch (c # cs) =
     (case matchHere (c # cs) of Some m \<Rightarrow> Some m | None \<Rightarrow> regexSearch cs)"

definition parseRepoUrl :: "js_string \<Rightarrow> error + (js_string \<times> js_string)" where
  "parseRepoUrl url =
     (case regexSearch url of
        None \<Rightarrow> Inl (Error (js ''URL de repo GitHub invalide''))
      | Some m \<Rightarrow> Inr m)"

text \<open>
  \<open>settings.repoFolder.replace(/^\/|\/$/g, "")\<close>: the scan removes a slash that stands
  at index 0 (first alternative) or at the last index (second alternative) and keeps
  every other code unit.
\<close>

fun replaceSlashes :: "nat \<Rightarrow> js_string \<Rightarrow> js_string" where
  "replaceSlashes i [] = []"
| "replaceSlashes i (c # cs) =
     (if c = 0x2F \<and> (i = 0 \<or> cs = []) then replaceSlashes (i + 1) cs
      else c # replaceSlashes (i + 1) cs)"

definition normalizeRepoFolder :: "js_string \<Rightarrow> js_string" where
  "normalizeRepoFolder folder = replaceSlashes 0 folder"

text \<open>
  What the words "strip one leading slash and one trailing slash if present" say.
\<close>

definition spec_stripSlashes :: "js_string \<Rightarrow> js_string" where
  "spec_stripSlashes s =
     (let s1 = (if s \<noteq> [] \<and> hd s = 0x2F then tl s else s)
      in if s1 \<noteq> [] \<and> last s1 = 0x2F then butlast s1 else s1)"

section \<open>Local files, the remote tree and the new tree\<close>

record LocalFile =
  vaultPath :: js_string
  repoPath :: js_string
  content :: js_string

text \<open>An entry of the recursive tree listing; the API leaves every field optional.\<close>

record TreeObj =
  obj_path :: "js_string option"
  obj_mode :: "js_string option"
  obj_type :: "js_string option"
  obj_sha :: "js_string option"

text \<open>An entry of the \<open>tree\<close> parameter of create-tree, as the source builds it.\<close>

record TreeItem =
  item_path :: js_string
  item_mode :: js_string
  item_type :: js_string
  item_content :: "js_string option"
  item_sha :: "js_string option"

text \<open>The template \<open>repoFolder ? `${repoFolder}/${path}` : path\<close>.\<close>

definition repoPathOf :: "js_string \<Rightarrow> js_string \<Rightarrow> js_string" where
  "repoPathOf folder p = (if folder \<noteq> [] then folder @ js ''/'' @ p else p)"

definition localFile :: "js_string \<Rightarrow> TAbstractFile \<Rightarrow> js_string \<Rightarrow> LocalFile" where
  "localFile folder f c =
     \<lparr>vaultPath = path f, repoPath = repoPathOf folder (path f), content = c\<rparr>"

text \<open>The inner loop over the files of a selected folder.\<close>

fun readFiles ::
  "Vault \<Rightarrow> js_string \<Rightarrow> TAbstractFile list \<Rightarrow> LocalFile list \<Rightarrow> error + LocalFile list"
where
  "readFiles v folder [] localFiles = Inr localFiles"
| "readFiles v folder (f # fs) localFiles =
     (case vault_read v f of
        Inl e \<Rightarrow> Inl e
      | Inr c \<Rightarrow> readFiles v folder fs (localFiles @ [localFile folder f c]))"

text \<open>
  The loop over \<open>pathsToSync\<close>: a file is read and pushed, a folder contributes all
  its files, and a path that is neither is passed over.
\<close>

fun gatherLocalFiles ::
  "Vault \<Rightarrow> js_string \<Rightarrow> js_string list \<Rightarrow> LocalFile list \<Rightarrow> error + LocalFile list"
where
  "gatherLocalFiles v folder [] localFiles = Inr localFiles"
| "gatherLocalFiles v folder (p # ps) localFiles =
     (case getAbstractFileByPath v p of
        Some (TFile fp) \<Rightarrow>
          (case vault_read v (TFile fp) of
             Inl e \<Rightarrow> Inl e
           | Inr c \<Rightarrow>
               gatherLocalFiles v folder ps (localFiles @ [localFile folder (TFile fp) c]))
      | Some (TFolder fp children) \<Rightarrow>
          (case readFiles v folder (getAllFilesInFolder (TFolder fp children)) localFiles of
             Inl e \<Rightarrow> Inl e
           | Inr localFiles' \<Rightarrow> gatherLocalFiles v folder ps localFiles')
      | None \<Rightarrow> gatherLocalFiles v folder ps localFiles)"

text \<open>
  A JavaScript \<open>Map\<close> keeps its keys in insertion order; \<open>set\<close> on a present key
  replaces the value in place.
\<close>

fun Map_set :: "'k \<Rightarrow> 'v \<Rightarrow> ('k \<times> 'v) list \<Rightarrow> ('k \<times> 'v) list" where
  "Map_set k v [] = [(k, v)]"
| "Map_set k v ((k', v') # m) = (if k' = k then (k, v) # m else (k', v') # Map_set k v m)"

definition Map_get :: "('k \<times> 'v) list \<Rightarrow> 'k \<Rightarrow> 'v option" where
  "Map_get m k = map_of m k"

definition Map_keys :: "('k \<times> 'v) list \<Rightarrow> 'k list" where
  "Map_keys m = map fst m"

text \<open>
  The filter of the listing:
  \<open>obj.type === "blob" && obj.path && (obj.path === repoFolder || obj.path.startsWith(repoFolder + "/"))\<close>.
\<close>

definition inRepoFolder :: "js_string \<Rightarrow> TreeObj \<Rightarrow> bool" where
  "inRepoFolder folder obj =
     (obj_type obj = Some (js ''blob'') \<and>
      (case obj_path obj of
         None \<Rightarrow> False
       | Some p \<Rightarrow> p \<noteq> [] \<and> (p = folder \<or> startsWith p (folder @ js ''/''))))"

fun mapRemoteFiles ::
  "js_string \<Rightarrow> TreeObj list \<Rightarrow> (js_string \<times> js_string) list \<Rightarrow> (js_string \<times> js_string) list"
where
  "mapRemoteFiles folder [] remoteFiles = remoteFiles"
| "mapRemoteFiles folder (obj # objs) remoteFiles =
     (if inRepoFolder folder obj
      then mapRemoteFiles folder objs
             (Map_set (case obj_path obj of None \<Rightarrow> [] | Some p \<Rightarrow> p)
                      (case obj_sha obj of None \<Rightarrow> [] | Some h \<Rightarrow> h) remoteFiles)
      else mapRemoteFiles folder objs remoteFiles)"

definition upsertItem :: "LocalFile \<Rightarrow> TreeItem" where
  "upsertItem file =
     \<lparr>item_path = repoPath file, item_mode = js ''100644'', item_type = js ''blob'',
      item_content = Some (content file), item_sha = None\<rparr>"

definition deleteItem :: "js_string \<Rightarrow> TreeItem" where
  "deleteItem remotePath =
     \<lparr>item_path = remotePath, item_mode = js ''100644'', item_type = js ''blob'',
      item_content = None, item_sha = Some []\<rparr>"

text \<open>The loop "add or update files (if content changed)".\<close>

fun addOrUpdate ::
  "LocalFile list \<Rightarrow> (js_string \<times> js_string) list \<Rightarrow> TreeItem list \<Rightarrow> error + TreeItem list"
where
  "addOrUpdate [] remoteFiles tree = Inr tree"
| "addOrUpdate (file # files) remoteFiles tree =
     (case gitBlobSha1 (content file) of
        Inl e \<Rightarrow> Inl e
      | Inr localSha \<Rightarrow>
          if Some localSha \<noteq> Map_get remoteFiles (repoPath file)
          then addOrUpdate files remoteFiles (tree @ [upsertItem file])
          else addOrUpdate files remoteFiles tree)"

text \<open>The loop "delete files in the repo folder that are not in localFiles".\<close>

fun deleteRemoved :: "js_string list \<Rightarrow> js_string set \<Rightarrow> TreeItem list \<Rightarrow> TreeItem list" where
  "deleteRemoved [] localRepoPaths tree = tree"
| "deleteRemoved (remotePath # keys) localRepoPaths tree =
     (if remotePath \<notin> localRepoPaths
      then deleteRemoved keys localRepoPaths (tree @ [deleteItem remotePath])
      else deleteRemoved keys localRepoPaths tree)"

definition prepareTree ::
  "LocalFile list \<Rightarrow> (js_string \<times> js_string) list \<Rightarrow> error + TreeItem list"
where
  "prepareTree localFiles remoteFiles =
     (case addOrUpdate localFiles remoteFiles [] of
        Inl e \<Rightarrow> Inl e
      | Inr tree \<Rightarrow>
          Inr (deleteRemoved (Map_keys remoteFiles) (set (map repoPath localFiles)) tree))"

section \<open>The remote calls and \<open>publishToGitHub\<close>\<close>

text \<open>
  The six calls the publish sends through Octokit, with their parameters, and the
  remote as the publish sees it: for each call either the value the source reads
  from the response or the error the call raises.
\<close>

datatype request =
    GetRef js_string js_string js_string
  | GetCommit js_string js_string js_string
  | GetTree js_string js_string js_string js_string
  | CreateTree js_string js_string js_string "TreeItem list"
  | CreateCommit js_string js_string js_string js_string "js_string list"
      "js_string \<times> js_string" "js_string \<times> js_string"
  | UpdateRef js_string js_string js_string js_string

record Octokit =
  git_getRef :: "js_string \<Rightarrow> js_string \<Rightarrow> js_string \<Rightarrow> error + js_string"
  git_getCommit :: "js_string \<Rightarrow> js_string \<Rightarrow> js_string \<Rightarrow> error + js_string"
  git_getTree :: "js_string \<Rightarrow> js_string \<Rightarrow> js_string \<Rightarrow> js_string \<Rightarrow> error + TreeObj list"
  git_createTree :: "js_string \<Rightarrow> js_string \<Rightarrow> js_string \<Rightarrow> TreeItem list \<Rightarrow> error + js_string"
  git_createCommit ::
    "js_string \<Rightarrow> js_string \<Rightarrow> js_string \<Rightarrow> js_string \<Rightarrow> js_string list \<Rightarrow>
     js_string \<times> js_string \<Rightarrow> js_string \<times> js_string \<Rightarrow> error + js_string"
  git_updateRef :: "js_string \<Rightarrow> js_string \<Rightarrow> js_string \<Rightarrow> js_string \<Rightarrow> error + unit"

definition errorOf :: "error + 'a \<Rightarrow> error option" where
  "errorOf r = (case r of Inl e \<Rightarrow> Some e | Inr x \<Rightarrow> None)"

text \<open>The error, if any, with which the remote answers a request.\<close>

fun failure :: "Octokit \<Rightarrow> request \<Rightarrow> error option" where
  "failure oc (GetRef owner repo ref) = errorOf (git_getRef oc owner repo ref)"
| "failure oc (GetCommit owner repo sha) = errorOf (git_getCommit oc owner repo sha)"
| "failure oc (GetTree owner repo sha recursive) = errorOf (git_getTree oc owner repo sha recursive)"
| "failure oc (CreateTree owner repo base tree) = errorOf (git_createTree oc owner repo base tree)"
| "failure oc (CreateCommit owner repo msg tree parents author committer) =
     errorOf (git_createCommit oc owner repo msg tree parents author committer)"
| "failure oc (UpdateRef owner repo ref sha) = errorOf (git_updateRef oc owner repo ref sha)"

definition isWrite :: "request \<Rightarrow> bool" where
  "isWrite r =
     (case r of
        CreateTree owner repo base tree \<Rightarrow> True
      | CreateCommit owner repo msg tree parents author committer \<Rightarrow> True
      | UpdateRef owner repo ref sha \<Rightarrow> True
      | _ \<Rightarrow> False)"

text \<open>
  What a publish works in: the vault, the remote, and the clock that
  \<open>new Date().toISOString()\<close> reads.
\<close>

record Env =
  vault :: Vault
  octokit :: Octokit
  now :: js_string

text \<open>
  The plugin and its effects: the settings object, what \<open>saveData\<close> stored last,
  the notices shown and the requests sent, in order.
\<close>

record Plugin =
  settings :: GitHubPublisherSettings
  savedData :: "GitHubPublisherSettings option"
  notices :: "js_string list"
  requests :: "request list"

definition notice :: "js_string \<Rightarrow> Plugin \<Rightarrow> Plugin" where
  "notice m s = s\<lparr>notices := notices s @ [m]\<rparr>"

definition send :: "request \<Rightarrow> Plugin \<Rightarrow> Plugin" where
  "send r s = s\<lparr>requests := requests s @ [r]\<rparr>"

text \<open>
  \<open>saveSettings\<close> stores the settings with \<open>saveData\<close>, which is taken to succeed;
  the new Octokit client, the timer and the refreshed settings tab that follow it do
  not touch the state kept here.
\<close>

definition saveSettings :: "Plugin \<Rightarrow> Plugin" where
  "saveSettings s = s\<lparr>savedData := Some (settings s)\<rparr>"

definition updateLastSyncDate :: "Env \<Rightarrow> Plugin \<Rightarrow> Plugin" where
  "updateLastSyncDate env s =
     saveSettings (s\<lparr>settings := (settings s)\<lparr>lastSyncDate := Some (now env)\<rparr>\<rparr>)"

text \<open>
  The commit message and the identity of author and committer. The three code
  units between the words of the message are those of the literal in main.ts.
\<close>

definition commitMessage :: js_string where
  "commitMessage = js ''Publish Obsidian '' @ [0xE2, 0x2020, 0x2019] @ js '' GitHub''"

definition botIdentity :: "js_string \<times> js_string" where
  "botIdentity = (js ''Obsidian GitHub Publisher'', js ''obsidian-bot@cyprien.io'')"

text \<open>
  The end of the \<open>try\<close> block: create the new tree and the commit, move the branch,
  then record the date. The first component of the result is the error thrown, if
  any.
\<close>

definition createAndCommit ::
  "Env \<Rightarrow> js_string \<Rightarrow> js_string \<Rightarrow> js_string \<Rightarrow> js_string \<Rightarrow> js_string \<Rightarrow>
   TreeItem list \<Rightarrow> Plugin \<Rightarrow> error option \<times> Plugin"
where
  "createAndCommit env owner repo branch latestCommitSha baseTreeSha tree s =
     (let s1 = send (CreateTree owner repo baseTreeSha tree) s
      in case git_createTree (octokit env) owner repo baseTreeSha tree of
           Inl e \<Rightarrow> (Some e, s1)
         | Inr newTreeSha \<Rightarrow>
             (let s2 = send (CreateCommit owner repo commitMessage newTreeSha [latestCommitSha]
                               botIdentity botIdentity) s1
              in case git_createCommit (octokit env) owner repo commitMessage newTreeSha
                        [latestCommitSha] botIdentity botIdentity of
                   Inl e \<Rightarrow> (Some e, s2)
                 | Inr commitSha \<Rightarrow>
                     (let s3 = send (UpdateRef owner repo (js ''heads/'' @ branch) commitSha) s2
                      in case git_updateRef (octokit env) owner repo (js ''heads/'' @ branch)
                                commitSha of
                           Inl e \<Rightarrow> (Some e, s3)
                         | Inr u \<Rightarrow> (None, updateLastSyncDate env s3))))"

text \<open>
  From "get latest commit and tree" to the decision whether anything changes.
\<close>

definition fetchAndPublish ::
  "Env \<Rightarrow> js_string \<Rightarrow> js_string \<Rightarrow> js_string \<Rightarrow> js_string \<Rightarrow> LocalFile list \<Rightarrow>
   Plugin \<Rightarrow> error option \<times> Plugin"
where
  "fetchAndPublish env owner repo branch folder localFiles s =
     (let s1 = send (GetRef owner repo (js ''heads/'' @ branch)) s
      in case git_getRef (octokit env) owner repo (js ''heads/'' @ branch) of
           Inl e \<Rightarrow> (Some e, s1)
         | Inr latestCommitSha \<Rightarrow>
             (let s2 = send (GetCommit owner repo latestCommitSha) s1
              in case git_getCommit (octokit env) owner repo latestCommitSha of
                   Inl e \<Rightarrow> (Some e, s2)
                 | Inr baseTreeSha \<Rightarrow>
                     (let s3 = send (GetTree owner repo baseTreeSha (js ''true'')) s2
                      in case git_getTree (octokit env) owner repo baseTreeSha (js ''true'') of
                           Inl e \<Rightarrow> (Some e, s3)
                         | Inr baseTree \<Rightarrow>
                             (case prepareTree localFiles (mapRemoteFiles folder baseTree []) of
                                Inl e \<Rightarrow> (Some e, s3)
                              | Inr tree \<Rightarrow>
                                  if tree = [] then (None, updateLastSyncDate env s3)
                                  else createAndCommit env owner repo branch latestCommitSha
                                         baseTreeSha tree s3))))"

text \<open>The \<open>try\<close> block of \<open>publishToGitHub\<close>.\<close>

definition publishTry :: "Env \<Rightarrow> Plugin \<Rightarrow> error option \<times> Plugin" where
  "publishTry env s =
     (if githubToken (settings s) = [] \<or> repoUrl (settings s) = [] \<or> repoBranch (settings s) = []
      then (None, notice (js ''GitHub Publisher: invalid settings'') s)
      else case parseRepoUrl (repoUrl (settings s)) of
          Inl e \<Rightarrow> (Some e, s)
        | Inr (owner, repo) \<Rightarrow>
            (let branch = repoBranch (settings s);
                 folder = normalizeRepoFolder (repoFolder (settings s));
                 pathsToSync = selectedPaths (settings s)
             in case gatherLocalFiles (vault env) folder pathsToSync [] of
                  Inl e \<Rightarrow> (Some e, s)
                | Inr localFiles \<Rightarrow>
                    fetchAndPublish env owner repo branch folder localFiles s))"

text \<open>
  \<open>publishToGitHub\<close>: the \<open>try\<close> block and its \<open>catch\<close>, which shows a notice with the
  message of the error. The first component of the result is the error with which
  the returned promise is rejected, if any.
\<close>

definition publishToGitHub :: "Env \<Rightarrow> Plugin \<Rightarrow> error option \<times> Plugin" where
  "publishToGitHub env s =
     (case publishTry env s of
        (None, s') \<Rightarrow> (None, s')
      | (Some e, s') \<Rightarrow>
          (None, notice (js ''GitHub Publisher: error during publish : '' @ message e) s'))"

section \<open>Example inputs\<close>

text \<open>
  A small vault, remote and plugin on which the theorems below are instantiated: the
  note \<open>a.md\<close> holds \<open>hello\<close>, the folder \<open>d\<close> holds the empty note \<open>d/b.md\<close>; the remote
  answers every read with the given tree listing and the final update-ref with the
  given result.
\<close>

definition helloSha :: js_string where
  "helloSha = js ''b6fc4c620b67d95f953a5c1c1230aaab5db5a1b0''"

definition emptySha :: js_string where
  "emptySha = js ''e69de29bb2d1d6434b8b29ae775ad8c2e48c5391''"

definition blobObj :: "js_string \<Rightarrow> js_string \<Rightarrow> TreeObj" where
  "blobObj p h =
     \<lparr>obj_path = Some p, obj_mode = Some (js ''100644''), obj_type = Some (js ''blob''),
      obj_sha = Some h\<rparr>"

definition exampleVault :: Vault where
  "exampleVault =
     \<lparr>fileMap =
        [(js ''a.md'', TFile (js ''a.md'')),
         (js ''d'', TFolder (js ''d'') [TFile (js ''d/b.md'')]),
         (js ''d/b.md'', TFile (js ''d/b.md''))],
      stored = [(js ''a.md'', js ''hello''), (js ''d/b.md'', [])]\<rparr>"

definition exampleOctokit :: "TreeObj list \<Rightarrow> error + unit \<Rightarrow> Octokit" where
  "exampleOctokit baseTree refUpdate =
     \<lparr>git_getRef = (\<lambda>owner repo ref. Inr (js ''c0'')),
      git_getCommit = (\<lambda>owner repo sha. Inr (js ''t0'')),
      git_getTree = (\<lambda>owner repo sha recursive. Inr baseTree),
      git_createTree = (\<lambda>owner repo base tree. Inr (js ''t1'')),
      git_createCommit = (\<lambda>owner repo msg tree parents author committer. Inr (js ''c1'')),
      git_updateRef = (\<lambda>owner repo ref sha. refUpdate)\<rparr>"

definition exampleEnv :: "TreeObj list \<Rightarrow> error + unit \<Rightarrow> Env" where
  "exampleEnv baseTree refUpdate =
     \<lparr>vault = exampleVault, octokit = exampleOctokit baseTree refUpdate,
      now = js ''2026-01-01T00:00:00.000Z''\<rparr>"

definition examplePlugin :: "js_string \<Rightarrow> js_string list \<Rightarrow> Plugin" where
  "examplePlugin folder paths =
     \<lparr>settings =
        \<lparr>githubToken = js ''token'', repoUrl = js ''https://github.com/o/r'',
         repoFolder = folder, repoBranch = js ''main'', selectedPaths = paths,
         syncInterval = 60, lastSyncDate = None\<rparr>,
      savedData = None, notices = [], requests = []\<rparr>"

definition exampleReads :: "request list" where
  "exampleReads =
     [GetRef (js ''o'') (js ''r'') (js ''heads/main''),
      GetCommit (js ''o'') (js ''r'') (js ''c0''),
      GetTree (js ''o'') (js ''r'') (js ''t0'') (js ''true'')]"

definition exampleWrites :: "TreeItem list \<Rightarrow> request list" where
  "exampleWrites tree =
     [CreateTree (js ''o'') (js ''r'') (js ''t0'') tree,
      CreateCommit (js ''o'') (js ''r'') commitMessage (js ''t1'') [js ''c0'']
        botIdentity botIdentity,
      UpdateRef (js ''o'') (js ''r'') (js ''heads/main'') (js ''c1'')]"

definition exampleSynced :: "js_string \<Rightarrow> js_string list \<Rightarrow> request list \<Rightarrow> Plugin" where
  "exampleSynced folder paths sent =
     \<lparr>settings =
        (settings (examplePlugin folder paths))
          \<lparr>lastSyncDate := Some (js ''2026-01-01T00:00:00.000Z'')\<rparr>,
      savedData =
        Some ((settings (examplePlugin folder paths))
                \<lparr>lastSyncDate := Some (js ''2026-01-01T00:00:00.000Z'')\<rparr>),
      notices = [],
      requests = sent\<rparr>"

section \<open>Evaluating the platform functions\<close>

lemma chunks_numeral:
  "chunks (numeral k) n xs = take n xs # chunks (pred_numeral k) n (drop n xs)"
  by (simp add: numeral_eq_Suc)

lemma sha1_schedule_numeral:
  "sha1_schedule (numeral k) w =
     sha1_schedule (pred_numeral k)
       (w @ [rotl 1 (w ! (length w - 3) XOR w ! (length w - 8) XOR
                     w ! (length w - 14) XOR w ! (length w - 16))])"
  by (simp add: numeral_eq_Suc)

lemma replicate_numeral: "replicate (numeral k) x = x # replicate (pred_numeral k) x"
  by (simp add: numeral_eq_Suc)

lemma mask32: "(x :: 32 word) AND 0xFFFFFFFF = x"
proof -
  have all_ones: "(0xFFFFFFFF :: 32 word) = - 1" by simp
  show ?thesis by (subst all_ones) simp
qed

lemma rotl_masked: "rotl n x = (push_bit n x AND 0xFFFFFFFF) OR drop_bit (32 - n) x"
  by (simp only: mask32 rotl_def)

lemma sha1_rounds_masked:
  "sha1_rounds t (w # ws) (a, b, c, d, e) =
     sha1_rounds (t + 1) ws
       ((rotl 5 a + sha1_f t b c d + e + sha1_k t + w) AND 0xFFFFFFFF, a, rotl 30 b, c, d)"
  by (simp only: mask32 sha1_rounds.simps)

lemmas sha1_eval =
  sha1_def sha1_pad_def bytes64_def bytes32_def chunks_numeral replicate_numeral
  sha1_schedule_numeral rotl_masked sha1_rounds_masked sha1_f_def sha1_k_def

lemmas encode_eval =
  js_def TextEncoder_encode_def utf8_def scalarValue_def isHighSurrogate_def isLowSurrogate_def

lemma sha1_blob_empty:
  "sha1 [0x62, 0x6c, 0x6f, 0x62, 0x20, 0x30, 0] =
     [0xe6, 0x9d, 0xe2, 0x9b, 0xb2, 0xd1, 0xd6, 0x43, 0x4b, 0x8b,
      0x29, 0xae, 0x77, 0x5a, 0xd8, 0xc2, 0xe4, 0x8c, 0x53, 0x91]"
  by (simp add: sha1_eval del: sha1_rounds.simps(2))

lemma sha1_blob_hello:
  "sha1 [0x62, 0x6c, 0x6f, 0x62, 0x20, 0x35, 0, 0x68, 0x65, 0x6c, 0x6c, 0x6f] =
     [0xb6, 0xfc, 0x4c, 0x62, 0x0b, 0x67, 0xd9, 0x5f, 0x95, 0x3a,
      0x5c, 0x1c, 0x12, 0x30, 0xaa, 0xab, 0x5d, 0xb5, 0xa1, 0xb0]"
  by (simp add: sha1_eval del: sha1_rounds.simps(2))

section \<open>The content hash\<close>

lemma nat_below_16:
  "(d :: nat) < 16 \<Longrightarrow>
     d = 0 \<or> d = 1 \<or> d = 2 \<or> d = 3 \<or> d = 4 \<or> d = 5 \<or> d = 6 \<or> d = 7 \<or>
     d = 8 \<or> d = 9 \<or> d = 10 \<or> d = 11 \<or> d = 12 \<or> d = 13 \<or> d = 14 \<or> d = 15"
  by arith

lemma digitChar_hex: "d < 16 \<Longrightarrow> digitChar d = spec_hexDigit d"
  by (drule nat_below_16) (auto simp: digitChar_def spec_hexDigit_def js_def)

lemma Number_toString_digit: "n < 16 \<Longrightarrow> Number_toString 16 n = [digitChar n]"
  by (simp add: Number_toString.simps [of 16 n])

lemma hex_of_byte:
  "padStart 2 0x30 (Number_toString 16 (unat (b :: byte))) =
     [spec_hexDigit (unat b div 16), spec_hexDigit (unat b mod 16)]"
proof -
  have below: "unat b < 256" using unsigned_less [of b] by simp
  show ?thesis
  proof (cases "unat b < 16")
    case True
    have zero: "spec_hexDigit 0 = 0x30" by (simp add: spec_hexDigit_def js_def)
    from True show ?thesis
      by (simp add: padStart_def Number_toString_digit digitChar_hex zero)
  next
    case False
    from below have "unat b div 16 < 16" by simp
    with False show ?thesis
      by (simp add: padStart_def Number_toString.simps [of 16 "unat b"]
            Number_toString_digit digitChar_hex)
  qed
qed

lemma Uint8Array_set_header:
  "Uint8Array_set (Uint8Array_new (length hs + length cs)) hs 0 =
     Inr (hs @ replicate (length cs) 0)"
  by (simp add: Uint8Array_set_def Uint8Array_new_def)

lemma Uint8Array_set_content:
  "Uint8Array_set (hs @ replicate (length cs) 0) cs (length hs) = Inr (hs @ cs)"
  by (simp add: Uint8Array_set_def)

lemma gitBlobSha1_digest: "gitBlobSha1 c = Inr (spec_blobDigest c)"
  by (simp add: gitBlobSha1_def spec_blobDigest_def spec_lowerHex_def Let_def
        Uint8Array_set_header Uint8Array_set_content hex_of_byte)

lemma header_empty:
  "TextEncoder_encode (js ''blob '' @ Number_toString 10 (length (TextEncoder_encode [])) @ [0])
     @ TextEncoder_encode [] = [0x62, 0x6c, 0x6f, 0x62, 0x20, 0x30, 0]"
  by (simp add: encode_eval Number_toString.simps [of 10 0] digitChar_def)

lemma header_hello:
  "TextEncoder_encode
     (js ''blob '' @ Number_toString 10 (length (TextEncoder_encode (js ''hello''))) @ [0])
     @ TextEncoder_encode (js ''hello'') =
   [0x62, 0x6c, 0x6f, 0x62, 0x20, 0x35, 0, 0x68, 0x65, 0x6c, 0x6c, 0x6f]"
proof -
  have five: "Number_toString 10 (Suc (Suc (Suc (Suc (Suc 0))))) = [0x35]"
    by (simp add: Number_toString.simps [of 10 "Suc (Suc (Suc (Suc (Suc 0))))"] digitChar_def)
  show ?thesis
    by (simp add: encode_eval five)
qed

lemma literal_empty:
  "TextEncoder_encode (js ''blob 0'' @ [0]) = [0x62, 0x6c, 0x6f, 0x62, 0x20, 0x30, 0]"
  by (simp add: encode_eval)

lemma literal_hello:
  "TextEncoder_encode (js ''blob 5'' @ [0] @ js ''hello'') =
     [0x62, 0x6c, 0x6f, 0x62, 0x20, 0x35, 0, 0x68, 0x65, 0x6c, 0x6c, 0x6f]"
  by (simp add: encode_eval)

lemma lowerHex_empty:
  "spec_lowerHex
     [0xe6, 0x9d, 0xe2, 0x9b, 0xb2, 0xd1, 0xd6, 0x43, 0x4b, 0x8b,
      0x29, 0xae, 0x77, 0x5a, 0xd8, 0xc2, 0xe4, 0x8c, 0x53, 0x91] =
   js ''e69de29bb2d1d6434b8b29ae775ad8c2e48c5391''"
  by (simp add: spec_lowerHex_def spec_hexDigit_def js_def)

lemma lowerHex_hello:
  "spec_lowerHex
     [0xb6, 0xfc, 0x4c, 0x62, 0x0b, 0x67, 0xd9, 0x5f, 0x95, 0x3a,
      0x5c, 0x1c, 0x12, 0x30, 0xaa, 0xab, 0x5d, 0xb5, 0xa1, 0xb0] =
   js ''b6fc4c620b67d95f953a5c1c1230aaab5db5a1b0''"
  by (simp add: spec_lowerHex_def spec_hexDigit_def js_def)

lemma gitBlobSha1_empty: "gitBlobSha1 [] = Inr (js ''e69de29bb2d1d6434b8b29ae775ad8c2e48c5391'')"
  by (simp only: gitBlobSha1_digest spec_blobDigest_def header_empty sha1_blob_empty lowerHex_empty)

lemma gitBlobSha1_hello:
  "gitBlobSha1 (js ''hello'') = Inr (js ''b6fc4c620b67d95f953a5c1c1230aaab5db5a1b0'')"
  by (simp only: gitBlobSha1_digest spec_blobDigest_def header_hello sha1_blob_hello lowerHex_hello)

text \<open>
  C2. For every string, \<open>gitBlobSha1\<close> returns the lowercase hexadecimal SHA-1 digest
  of the UTF-8 bytes of the header \<open>blob <byte length of the content>\0\<close> followed by
  the UTF-8 bytes of the content. For the empty string that is the digest of the
  bytes of \<open>blob 0\0\<close>, which is e69de29b..., and for \<open>hello\<close> the digest of the bytes
  of \<open>blob 5\0hello\<close>, which is b6fc4c62... .
\<close>

theorem gitBlobSha1_is_blob_digest:
  "gitBlobSha1 c = Inr (spec_blobDigest c) \<and>
   gitBlobSha1 [] = Inr (spec_lowerHex (sha1 (TextEncoder_encode (js ''blob 0'' @ [0])))) \<and>
   gitBlobSha1 [] = Inr (js ''e69de29bb2d1d6434b8b29ae775ad8c2e48c5391'') \<and>
   gitBlobSha1 (js ''hello'') =
     Inr (spec_lowerHex (sha1 (TextEncoder_encode (js ''blob 5'' @ [0] @ js ''hello'')))) \<and>
   gitBlobSha1 (js ''hello'') = Inr (js ''b6fc4c620b67d95f953a5c1c1230aaab5db5a1b0'')"
  by (simp only: gitBlobSha1_digest [of c] gitBlobSha1_empty gitBlobSha1_hello
        literal_empty literal_hello sha1_blob_empty sha1_blob_hello
        lowerHex_empty lowerHex_hello simp_thms)

section \<open>The new tree\<close>

lemma addOrUpdate_eq:
  "addOrUpdate files remoteFiles tree =
     Inr (tree @ map upsertItem
            (filter (\<lambda>file. map_option Inr (Map_get remoteFiles (repoPath file))
                             \<noteq> Some (gitBlobSha1 (content file))) files))"
proof (induction files arbitrary: tree)
  case Nil
  show ?case by simp
next
  case (Cons f fs)
  show ?case
    by (cases "Map_get remoteFiles (repoPath f)")
       (auto simp: gitBlobSha1_digest Cons.IH)
qed

lemma deleteRemoved_eq:
  "deleteRemoved keys localRepoPaths tree =
     tree @ map deleteItem (filter (\<lambda>remotePath. remotePath \<notin> localRepoPaths) keys)"
  by (induction keys arbitrary: tree) simp_all

lemma prepareTree_eq:
  "prepareTree localFiles remoteFiles =
     Inr (map upsertItem
            (filter (\<lambda>file. map_option Inr (Map_get remoteFiles (repoPath file))
                             \<noteq> Some (gitBlobSha1 (content file))) localFiles)
          @ map deleteItem
              (filter (\<lambda>remotePath. remotePath \<notin> repoPath ` set localFiles)
                 (Map_keys remoteFiles)))"
  by (simp add: prepareTree_def addOrUpdate_eq deleteRemoved_eq)

lemma upsertItem_eq_iff:
  "upsertItem f = upsertItem g \<longleftrightarrow> repoPath f = repoPath g \<and> content f = content g"
  by (auto simp: upsertItem_def)

lemma upsertItem_neq_deleteItem: "upsertItem f \<noteq> deleteItem p"
  by (simp add: upsertItem_def deleteItem_def)

lemma deleteItem_eq_iff: "deleteItem p = deleteItem q \<longleftrightarrow> p = q"
  by (auto simp: deleteItem_def)

lemma upsert_in_tree_iff:
  assumes "file \<in> set localFiles"
  shows "upsertItem file \<in>
           set (map upsertItem (filter (\<lambda>g. map_option Inr (Map_get remoteFiles (repoPath g))
                                             \<noteq> Some (gitBlobSha1 (content g))) localFiles)
                @ map deleteItem ks)
         \<longleftrightarrow> map_option Inr (Map_get remoteFiles (repoPath file))
               \<noteq> Some (gitBlobSha1 (content file))"
  using assms by (auto simp: upsertItem_eq_iff upsertItem_neq_deleteItem)

lemma delete_in_tree_iff:
  assumes "p \<in> set keys"
  shows "deleteItem p \<in> set (map upsertItem fs @ map deleteItem (filter (\<lambda>q. q \<notin> S) keys))
         \<longleftrightarrow> p \<notin> S"
  using assms upsertItem_neq_deleteItem [symmetric]
  by (auto simp: deleteItem_eq_iff)

lemma filter_single_changed:
  assumes "P file" and "\<forall>other \<in> set (before @ after). \<not> P other"
  shows "filter P (before @ file # after) = [file]"
  using assms by (simp add: filter_empty_conv)

text \<open>
  When every gathered entry has its hash in the remote map and the remote map holds
  no other path, the new tree is empty.
\<close>

lemma mirrored_gives_empty_tree:
  assumes "\<forall>f \<in> set localFiles.
      map_option Inr (Map_get remoteFiles (repoPath f)) = Some (gitBlobSha1 (content f))"
    and "set (Map_keys remoteFiles) \<subseteq> repoPath ` set localFiles"
  shows "prepareTree localFiles remoteFiles = Inr []"
  using assms by (auto simp: prepareTree_eq filter_empty_conv)

lemmas example_eval =
  js_def helloSha_def emptySha_def blobObj_def exampleVault_def exampleOctokit_def
  exampleEnv_def examplePlugin_def

lemma gather_example_a:
  "gatherLocalFiles exampleVault (js ''docs'') [js ''a.md''] [] =
     Inr [localFile (js ''docs'') (TFile (js ''a.md'')) (js ''hello'')]"
  by (simp add: example_eval getAbstractFileByPath_def vault_read_def)

lemma gather_example_a_d:
  "gatherLocalFiles exampleVault (js ''docs'') [js ''a.md'', js ''d''] [] =
     Inr [localFile (js ''docs'') (TFile (js ''a.md'')) (js ''hello''),
          localFile (js ''docs'') (TFile (js ''d/b.md'')) []]"
  by (simp add: example_eval getAbstractFileByPath_def vault_read_def)

lemma remote_example:
  "mapRemoteFiles (js ''docs'')
     [blobObj (js ''docs/a.md'') helloSha, blobObj (js ''docs/old.md'') emptySha,
      blobObj (js ''README.md'') emptySha] [] =
   [(js ''docs/a.md'', helloSha), (js ''docs/old.md'', emptySha)]"
  by (simp add: example_eval inRepoFolder_def startsWith_def)

lemma localFile_sel:
  "repoPath (localFile folder f c) = repoPathOf folder (path f)"
  "content (localFile folder f c) = c"
  "vaultPath (localFile folder f c) = path f"
  by (simp_all add: localFile_def)

lemma repoPath_examples:
  "repoPathOf (js ''docs'') (js ''a.md'') = js ''docs/a.md''"
  "repoPathOf (js ''docs'') (js ''d/b.md'') = js ''docs/d/b.md''"
  by (simp_all add: repoPathOf_def js_def)

text \<open>
  C4. For every path of the remote map, the new tree holds the deletion entry of that
  path (a blob entry with an empty sha) if and only if the path is not the repoPath
  of a gathered local entry. With \<open>docs/a.md\<close> and \<open>docs/old.md\<close> on the remote and a
  selection that maps to \<open>docs/a.md\<close> alone, content unchanged, the new tree is the
  deletion of \<open>docs/old.md\<close> and nothing else.
\<close>

theorem delete_iff_not_local:
  "(item_path (deleteItem remotePath) = remotePath \<and>
    item_type (deleteItem remotePath) = js ''blob'' \<and>
    item_sha (deleteItem remotePath) = Some [] \<and>
    item_content (deleteItem remotePath) = None) \<and>
   (\<exists>tree. prepareTree localFiles remoteFiles = Inr tree \<and>
      (\<forall>remotePath \<in> set (Map_keys remoteFiles).
         (deleteItem remotePath \<in> set tree) = (remotePath \<notin> repoPath ` set localFiles))) \<and>
   gatherLocalFiles exampleVault (js ''docs'') [js ''a.md''] [] =
     Inr [localFile (js ''docs'') (TFile (js ''a.md'')) (js ''hello'')] \<and>
   mapRemoteFiles (js ''docs'')
     [blobObj (js ''docs/a.md'') helloSha, blobObj (js ''docs/old.md'') emptySha,
      blobObj (js ''README.md'') emptySha] [] =
     [(js ''docs/a.md'', helloSha), (js ''docs/old.md'', emptySha)] \<and>
   prepareTree [localFile (js ''docs'') (TFile (js ''a.md'')) (js ''hello'')]
     [(js ''docs/a.md'', helloSha), (js ''docs/old.md'', emptySha)] =
     Inr [deleteItem (js ''docs/old.md'')]"
proof (intro conjI)
  show "item_path (deleteItem remotePath) = remotePath"
    and "item_type (deleteItem remotePath) = js ''blob''"
    and "item_sha (deleteItem remotePath) = Some []"
    and "item_content (deleteItem remotePath) = None"
    by (simp_all add: deleteItem_def)
next
  let ?ups = "filter (\<lambda>g. map_option Inr (Map_get remoteFiles (repoPath g))
                          \<noteq> Some (gitBlobSha1 (content g))) localFiles"
  let ?tree = "map upsertItem ?ups
                 @ map deleteItem
                     (filter (\<lambda>q. q \<notin> repoPath ` set localFiles) (Map_keys remoteFiles))"
  have "prepareTree localFiles remoteFiles = Inr ?tree"
    by (rule prepareTree_eq)
  moreover have "\<forall>remotePath \<in> set (Map_keys remoteFiles).
      (deleteItem remotePath \<in> set ?tree) = (remotePath \<notin> repoPath ` set localFiles)"
    using delete_in_tree_iff [of _ "Map_keys remoteFiles" ?ups "repoPath ` set localFiles"]
    by blast
  ultimately show "\<exists>tree. prepareTree localFiles remoteFiles = Inr tree \<and>
      (\<forall>remotePath \<in> set (Map_keys remoteFiles).
         (deleteItem remotePath \<in> set tree) = (remotePath \<notin> repoPath ` set localFiles))"
    by blast
next
  show "gatherLocalFiles exampleVault (js ''docs'') [js ''a.md''] [] =
     Inr [localFile (js ''docs'') (TFile (js ''a.md'')) (js ''hello'')]"
    by (rule gather_example_a)
next
  show "mapRemoteFiles (js ''docs'')
     [blobObj (js ''docs/a.md'') helloSha, blobObj (js ''docs/old.md'') emptySha,
      blobObj (js ''README.md'') emptySha] [] =
     [(js ''docs/a.md'', helloSha), (js ''docs/old.md'', emptySha)]"
    by (rule remote_example)
next
  show "prepareTree [localFile (js ''docs'') (TFile (js ''a.md'')) (js ''hello'')]
     [(js ''docs/a.md'', helloSha), (js ''docs/old.md'', emptySha)] =
     Inr [deleteItem (js ''docs/old.md'')]"
    by (simp add: prepareTree_eq localFile_sel repoPath_examples Map_get_def Map_keys_def
          gitBlobSha1_hello helloSha_def)
       (simp add: js_def)
qed

theorem delete_iff_not_local_witness:
  "js ''docs/old.md'' \<in> set (Map_keys [(js ''docs/a.md'', helloSha), (js ''docs/old.md'', emptySha)]) \<and>
   js ''docs/old.md'' \<notin> repoPath ` set [localFile (js ''docs'') (TFile (js ''a.md'')) (js ''hello'')] \<and>
   (\<exists>tree. prepareTree [localFile (js ''docs'') (TFile (js ''a.md'')) (js ''hello'')]
              [(js ''docs/a.md'', helloSha), (js ''docs/old.md'', emptySha)] = Inr tree \<and>
           deleteItem (js ''docs/old.md'') \<in> set tree \<and>
           deleteItem (js ''docs/a.md'') \<notin> set tree)"
proof -
  let ?L = "[localFile (js ''docs'') (TFile (js ''a.md'')) (js ''hello'')]"
  let ?R = "[(js ''docs/a.md'', helloSha), (js ''docs/old.md'', emptySha)]"
  have old: "js ''docs/old.md'' \<in> set (Map_keys ?R)"
    and a: "js ''docs/a.md'' \<in> set (Map_keys ?R)"
    by (simp_all add: Map_keys_def)
  have gone: "js ''docs/old.md'' \<notin> repoPath ` set ?L"
    and kept: "\<not> js ''docs/a.md'' \<notin> repoPath ` set ?L"
    by (simp_all add: localFile_sel repoPath_examples) (simp add: js_def)
  from delete_iff_not_local [of _ ?L ?R]
  obtain tree where tree: "prepareTree ?L ?R = Inr tree"
    and each: "\<forall>remotePath \<in> set (Map_keys ?R).
         (deleteItem remotePath \<in> set tree) = (remotePath \<notin> repoPath ` set ?L)"
    by blast
  from each old gone have "deleteItem (js ''docs/old.md'') \<in> set tree" by blast
  moreover from each a kept have "deleteItem (js ''docs/a.md'') \<notin> set tree" by blast
  ultimately show ?thesis using tree old gone by blast
qed

section \<open>Gathering keeps every occurrence\<close>

lemma readFiles_acc:
  "readFiles v folder fs acc =
     (case readFiles v folder fs [] of Inl e \<Rightarrow> Inl e | Inr xs \<Rightarrow> Inr (acc @ xs))"
proof (induction fs arbitrary: acc)
  case Nil
  show ?case by simp
next
  case (Cons f fs)
  show ?case
  proof (cases "vault_read v f")
    case (Inl e)
    then show ?thesis by simp
  next
    case (Inr c)
    then show ?thesis
      using Cons.IH [of "acc @ [localFile folder f c]"] Cons.IH [of "[localFile folder f c]"]
      by (simp split: sum.splits)
  qed
qed

lemma gatherLocalFiles_acc:
  "gatherLocalFiles v folder ps acc =
     (case gatherLocalFiles v folder ps [] of Inl e \<Rightarrow> Inl e | Inr xs \<Rightarrow> Inr (acc @ xs))"
proof (induction ps arbitrary: acc)
  case Nil
  show ?case by simp
next
  case (Cons p ps)
  show ?case
  proof (cases "getAbstractFileByPath v p")
    case None
    then show ?thesis using Cons.IH [of acc] by simp
  next
    case (Some af)
    show ?thesis
    proof (cases af)
      case (TFile fp)
      show ?thesis
      proof (cases "vault_read v (TFile fp)")
        case (Inl e)
        with Some TFile show ?thesis by simp
      next
        case (Inr c)
        with Some TFile show ?thesis
          using Cons.IH [of "acc @ [localFile folder (TFile fp) c]"]
            Cons.IH [of "[localFile folder (TFile fp) c]"]
          by (simp split: sum.splits)
      qed
    next
      case (TFolder fp children)
      show ?thesis
      proof (cases "readFiles v folder (getAllFilesInFolder (TFolder fp children)) []")
        case (Inl e)
        with Some TFolder show ?thesis
          using readFiles_acc [of v folder "getAllFilesInFolder (TFolder fp children)" acc]
          by simp
      next
        case (Inr xs)
        with Some TFolder show ?thesis
          using readFiles_acc [of v folder "getAllFilesInFolder (TFolder fp children)" acc]
            Cons.IH [of "acc @ xs"] Cons.IH [of xs]
          by (simp split: sum.splits)
      qed
    qed
  qed
qed

lemma gatherLocalFiles_append:
  "gatherLocalFiles v folder (ps @ qs) acc =
     (case gatherLocalFiles v folder ps acc of
        Inl e \<Rightarrow> Inl e
      | Inr xs \<Rightarrow> gatherLocalFiles v folder qs xs)"
  by (induction ps arbitrary: acc)
     (simp_all split: option.splits TAbstractFile.splits sum.splits)

text \<open>
  C9, as the code has it. The gathered entries are not deduplicated: the entries of
  the selected paths are appended in the order of the selection, so a file that is
  selected directly and lies in a selected folder is gathered once for each; the new
  tree holds one upsert for every gathered entry whose hash differs from the remote
  map, in order and with repetitions, followed by the deletions. Only the set of
  local repoPaths that decides the deletions holds each path once.
\<close>

theorem gathered_entries_not_deduplicated:
  "gatherLocalFiles v folder (ps @ qs) [] =
     (case gatherLocalFiles v folder ps [] of
        Inl e \<Rightarrow> Inl e
      | Inr xs \<Rightarrow>
          (case gatherLocalFiles v folder qs [] of
             Inl e \<Rightarrow> Inl e
           | Inr ys \<Rightarrow> Inr (xs @ ys))) \<and>
   prepareTree localFiles remoteFiles =
     Inr (map upsertItem
            (filter (\<lambda>f. map_option Inr (Map_get remoteFiles (repoPath f))
                          \<noteq> Some (gitBlobSha1 (content f))) localFiles)
          @ map deleteItem
              (filter (\<lambda>remotePath. remotePath \<notin> repoPath ` set localFiles)
                 (Map_keys remoteFiles)))"
proof
  show "gatherLocalFiles v folder (ps @ qs) [] =
     (case gatherLocalFiles v folder ps [] of
        Inl e \<Rightarrow> Inl e
      | Inr xs \<Rightarrow>
          (case gatherLocalFiles v folder qs [] of
             Inl e \<Rightarrow> Inl e
           | Inr ys \<Rightarrow> Inr (xs @ ys)))"
  proof (cases "gatherLocalFiles v folder ps []")
    case (Inl e)
    then show ?thesis by (simp add: gatherLocalFiles_append)
  next
    case (Inr xs)
    then show ?thesis
      using gatherLocalFiles_acc [of v folder qs xs]
      by (simp add: gatherLocalFiles_append)
  qed
next
  show "prepareTree localFiles remoteFiles =
     Inr (map upsertItem
            (filter (\<lambda>f. map_option Inr (Map_get remoteFiles (repoPath f))
                          \<noteq> Some (gitBlobSha1 (content f))) localFiles)
          @ map deleteItem
              (filter (\<lambda>remotePath. remotePath \<notin> repoPath ` set localFiles)
                 (Map_keys remoteFiles)))"
    by (rule prepareTree_eq)
qed

text \<open>
  C9 as stated fails: with the folder \<open>d\<close> and the file \<open>d/b.md\<close> inside it both
  selected, the file is gathered twice and the new tree holds two upserts of
  \<open>docs/d/b.md\<close>.
\<close>

theorem duplicate_upserts_counterexample:
  "gatherLocalFiles exampleVault (js ''docs'') [js ''d'', js ''d/b.md''] [] =
     Inr [localFile (js ''docs'') (TFile (js ''d/b.md'')) [],
          localFile (js ''docs'') (TFile (js ''d/b.md'')) []] \<and>
   prepareTree
     [localFile (js ''docs'') (TFile (js ''d/b.md'')) [],
      localFile (js ''docs'') (TFile (js ''d/b.md'')) []] [] =
     Inr [upsertItem (localFile (js ''docs'') (TFile (js ''d/b.md'')) []),
          upsertItem (localFile (js ''docs'') (TFile (js ''d/b.md'')) [])] \<and>
   item_path (upsertItem (localFile (js ''docs'') (TFile (js ''d/b.md'')) [])) = js ''docs/d/b.md''"
  by (simp add: prepareTree_eq Map_get_def Map_keys_def upsertItem_def localFile_sel
        repoPath_examples)
     (simp add: example_eval getAbstractFileByPath_def vault_read_def)

section \<open>Publishing on the example inputs\<close>

lemma parse_example: "parseRepoUrl (js ''https://github.com/o/r'') = Inr (js ''o'', js ''r'')"
  by (simp add: parseRepoUrl_def matchHere_def matchOwnerRepo_def stripDotGit_def
        canonicalize_def isLineTerminator_def js_def)

lemma normalize_examples:
  "normalizeRepoFolder [] = []"
  "normalizeRepoFolder (js ''docs'') = js ''docs''"
  "normalizeRepoFolder (js ''/docs'') = js ''docs''"
  "normalizeRepoFolder (js ''docs/'') = js ''docs''"
  "normalizeRepoFolder (js ''/docs/'') = js ''docs''"
  "normalizeRepoFolder (js ''//docs'') = js ''/docs''"
  by (simp_all add: normalizeRepoFolder_def js_def)

lemmas publish_eval =
  publishToGitHub_def publishTry_def fetchAndPublish_def createAndCommit_def
  updateLastSyncDate_def saveSettings_def send_def notice_def Let_def

lemma examplePlugin_sel:
  "githubToken (settings (examplePlugin folder paths)) = js ''token''"
  "repoUrl (settings (examplePlugin folder paths)) = js ''https://github.com/o/r''"
  "repoBranch (settings (examplePlugin folder paths)) = js ''main''"
  "repoFolder (settings (examplePlugin folder paths)) = folder"
  "selectedPaths (settings (examplePlugin folder paths)) = paths"
  "notices (examplePlugin folder paths) = []"
  "requests (examplePlugin folder paths) = []"
  "savedData (examplePlugin folder paths) = None"
  by (simp_all add: examplePlugin_def)

lemma exampleEnv_sel:
  "vault (exampleEnv baseTree refUpdate) = exampleVault"
  "now (exampleEnv baseTree refUpdate) = js ''2026-01-01T00:00:00.000Z''"
  "git_getRef (octokit (exampleEnv baseTree refUpdate)) owner repo ref = Inr (js ''c0'')"
  "git_getCommit (octokit (exampleEnv baseTree refUpdate)) owner repo sha = Inr (js ''t0'')"
  "git_getTree (octokit (exampleEnv baseTree refUpdate)) owner repo sha recursive = Inr baseTree"
  "git_createTree (octokit (exampleEnv baseTree refUpdate)) owner repo base tree = Inr (js ''t1'')"
  "git_createCommit (octokit (exampleEnv baseTree refUpdate)) owner repo msg newTree parents
     author committer = Inr (js ''c1'')"
  "git_updateRef (octokit (exampleEnv baseTree refUpdate)) owner repo ref sha = refUpdate"
  by (simp_all add: exampleEnv_def exampleOctokit_def)

lemma literal_nonempty:
  "js ''token'' \<noteq> []" "js ''https://github.com/o/r'' \<noteq> []" "js ''main'' \<noteq> []"
  by (simp_all add: js_def)

lemma heads_main: "js ''heads/'' @ js ''main'' = js ''heads/main''"
  by (simp add: js_def)

text \<open>
  The publish on the example inputs, in terms of what is gathered and of the new
  tree: nothing is sent beyond the three reads when the tree is empty; otherwise
  the three writes follow, and the date is recorded when update-ref succeeds.
\<close>

lemma publishTry_example:
  assumes gathered: "gatherLocalFiles exampleVault (normalizeRepoFolder folder) paths [] = Inr localFiles"
    and prepared: "prepareTree localFiles (mapRemoteFiles (normalizeRepoFolder folder) baseTree []) = Inr tree"
  shows "publishTry (exampleEnv baseTree refUpdate) (examplePlugin folder paths) =
     (if tree = [] then (None, exampleSynced folder paths exampleReads)
      else case refUpdate of
          Inr u \<Rightarrow> (None, exampleSynced folder paths (exampleReads @ exampleWrites tree))
        | Inl e \<Rightarrow>
            (Some e, (examplePlugin folder paths)\<lparr>requests := exampleReads @ exampleWrites tree\<rparr>))"
  by (cases refUpdate)
     (simp_all add: publishTry_def fetchAndPublish_def createAndCommit_def
        updateLastSyncDate_def saveSettings_def send_def Let_def
        examplePlugin_sel exampleEnv_sel literal_nonempty parse_example heads_main
        gathered prepared exampleSynced_def exampleReads_def exampleWrites_def)

lemma publish_example:
  assumes gathered: "gatherLocalFiles exampleVault (normalizeRepoFolder folder) paths [] = Inr localFiles"
    and prepared: "prepareTree localFiles (mapRemoteFiles (normalizeRepoFolder folder) baseTree []) = Inr tree"
  shows "publishToGitHub (exampleEnv baseTree refUpdate) (examplePlugin folder paths) =
     (if tree = [] then (None, exampleSynced folder paths exampleReads)
      else case refUpdate of
          Inr u \<Rightarrow> (None, exampleSynced folder paths (exampleReads @ exampleWrites tree))
        | Inl e \<Rightarrow>
            (None,
             (examplePlugin folder paths)
               \<lparr>notices := [js ''GitHub Publisher: error during publish : '' @ message e],
                requests := exampleReads @ exampleWrites tree\<rparr>))"
  by (cases refUpdate)
     (simp_all add: publishToGitHub_def publishTry_example [OF gathered prepared]
        notice_def examplePlugin_sel)
section \<open>The root of the branch as target folder\<close>

lemma inRepoFolder_root:
  "inRepoFolder [] obj =
     (obj_type obj = Some (js ''blob'') \<and>
      (case obj_path obj of None \<Rightarrow> False | Some p \<Rightarrow> startsWith p (js ''/'')))"
  by (cases "obj_path obj") (auto simp: inRepoFolder_def startsWith_def js_def)

lemma gather_root_a:
  "gatherLocalFiles exampleVault [] [js ''a.md''] [] =
     Inr [localFile [] (TFile (js ''a.md'')) (js ''hello'')]"
  by (simp add: example_eval getAbstractFileByPath_def vault_read_def)

lemma remote_root_empty:
  "mapRemoteFiles [] [blobObj (js ''a.md'') helloSha, blobObj (js ''old.md'') emptySha] [] = []"
  "mapRemoteFiles [] [blobObj (js ''a.md'') helloSha] [] = []"
  "mapRemoteFiles [] [blobObj (js ''old.md'') emptySha] [] = []"
  by (simp_all add: example_eval inRepoFolder_def startsWith_def)

lemma prepare_root_a:
  "prepareTree [localFile [] (TFile (js ''a.md'')) (js ''hello'')] [] =
     Inr [upsertItem (localFile [] (TFile (js ''a.md'')) (js ''hello''))]"
  by (simp add: prepareTree_eq Map_get_def Map_keys_def)

lemma prepare_docs_a_unchanged:
  "prepareTree [localFile (js ''docs'') (TFile (js ''a.md'')) (js ''hello'')]
     [(js ''docs/a.md'', helloSha)] = Inr []"
  by (simp add: prepareTree_eq localFile_sel repoPath_examples Map_get_def Map_keys_def
        gitBlobSha1_hello helloSha_def)

lemma remote_docs_a:
  "mapRemoteFiles (js ''docs'') [blobObj (js ''docs/a.md'') helloSha] [] =
     [(js ''docs/a.md'', helloSha)]"
  by (simp add: example_eval inRepoFolder_def startsWith_def)

text \<open>
  C6 fails on the code. With the empty target folder the filter compares each path
  with the empty string and with the prefix \<open>/\<close>, so it selects the blobs whose path
  starts with a slash, and none of an ordinary listing: the remote map of the listing
  \<open>a.md\<close>, \<open>old.md\<close> is empty, and a publish of the empty selection sends the three
  reads and no deletion.
\<close>

theorem root_folder_filter_selects_nothing:
  "inRepoFolder [] obj =
     (obj_type obj = Some (js ''blob'') \<and>
      (case obj_path obj of None \<Rightarrow> False | Some p \<Rightarrow> startsWith p (js ''/''))) \<and>
   normalizeRepoFolder [] = [] \<and>
   mapRemoteFiles (normalizeRepoFolder [])
     [blobObj (js ''a.md'') helloSha, blobObj (js ''old.md'') emptySha] [] = [] \<and>
   publishToGitHub
     (exampleEnv [blobObj (js ''a.md'') helloSha, blobObj (js ''old.md'') emptySha] (Inr ()))
     (examplePlugin [] []) =
   (None, exampleSynced [] [] exampleReads)"
proof (intro conjI)
  show "inRepoFolder [] obj =
     (obj_type obj = Some (js ''blob'') \<and>
      (case obj_path obj of None \<Rightarrow> False | Some p \<Rightarrow> startsWith p (js ''/'')))"
    by (rule inRepoFolder_root)
  show "normalizeRepoFolder [] = []"
    by (rule normalize_examples)
  show "mapRemoteFiles (normalizeRepoFolder [])
     [blobObj (js ''a.md'') helloSha, blobObj (js ''old.md'') emptySha] [] = []"
    by (simp only: normalize_examples remote_root_empty)
  have gathered: "gatherLocalFiles exampleVault (normalizeRepoFolder []) [] [] = Inr []"
    by simp
  have prepared:
    "prepareTree []
       (mapRemoteFiles (normalizeRepoFolder [])
          [blobObj (js ''a.md'') helloSha, blobObj (js ''old.md'') emptySha] []) = Inr []"
    by (simp only: normalize_examples remote_root_empty)
       (simp add: prepareTree_eq Map_keys_def)
  show "publishToGitHub
     (exampleEnv [blobObj (js ''a.md'') helloSha, blobObj (js ''old.md'') emptySha] (Inr ()))
     (examplePlugin [] []) =
   (None, exampleSynced [] [] exampleReads)"
    using publish_example [OF gathered prepared] by simp
qed

text \<open>
  C1 fails on the code at the empty target folder. The remote holds \<open>old.md\<close>, the
  selection is \<open>a.md\<close>: the publish succeeds and records the date, and the one tree it
  sends holds the upsert of \<open>a.md\<close> and no deletion, so \<open>old.md\<close> stays on the remote
  though no local entry maps to it.
\<close>

theorem root_publish_keeps_stale_blob:
  "gatherLocalFiles exampleVault (normalizeRepoFolder []) [js ''a.md''] [] =
     Inr [localFile [] (TFile (js ''a.md'')) (js ''hello'')] \<and>
   repoPath (localFile [] (TFile (js ''a.md'')) (js ''hello'')) = js ''a.md'' \<and>
   publishToGitHub (exampleEnv [blobObj (js ''old.md'') emptySha] (Inr ()))
     (examplePlugin [] [js ''a.md'']) =
   (None,
    exampleSynced [] [js ''a.md'']
      (exampleReads
       @ exampleWrites [upsertItem (localFile [] (TFile (js ''a.md'')) (js ''hello''))])) \<and>
   deleteItem (js ''old.md'')
     \<notin> set [upsertItem (localFile [] (TFile (js ''a.md'')) (js ''hello''))]"
proof (intro conjI)
  have gathered: "gatherLocalFiles exampleVault (normalizeRepoFolder []) [js ''a.md''] [] =
     Inr [localFile [] (TFile (js ''a.md'')) (js ''hello'')]"
    by (simp only: normalize_examples gather_root_a)
  then show "gatherLocalFiles exampleVault (normalizeRepoFolder []) [js ''a.md''] [] =
     Inr [localFile [] (TFile (js ''a.md'')) (js ''hello'')]" .
  show "repoPath (localFile [] (TFile (js ''a.md'')) (js ''hello'')) = js ''a.md''"
    by (simp add: localFile_sel repoPathOf_def)
  have prepared:
    "prepareTree [localFile [] (TFile (js ''a.md'')) (js ''hello'')]
       (mapRemoteFiles (normalizeRepoFolder []) [blobObj (js ''old.md'') emptySha] []) =
     Inr [upsertItem (localFile [] (TFile (js ''a.md'')) (js ''hello''))]"
    by (simp only: normalize_examples remote_root_empty prepare_root_a)
  show "publishToGitHub (exampleEnv [blobObj (js ''old.md'') emptySha] (Inr ()))
     (examplePlugin [] [js ''a.md'']) =
   (None,
    exampleSynced [] [js ''a.md'']
      (exampleReads
       @ exampleWrites [upsertItem (localFile [] (TFile (js ''a.md'')) (js ''hello''))]))"
    using publish_example [OF gathered prepared] by simp
  show "deleteItem (js ''old.md'')
     \<notin> set [upsertItem (localFile [] (TFile (js ''a.md'')) (js ''hello''))]"
    using upsertItem_neq_deleteItem [of "localFile [] (TFile (js ''a.md'')) (js ''hello'')"
        "js ''old.md''"]
    by auto
qed

text \<open>
  An empty new tree ends the publish after the three reads: no write is sent and the
  date is recorded.
\<close>

lemma empty_tree_sends_no_write:
  assumes "git_getRef (octokit env) owner repo (js ''heads/'' @ branch) = Inr commitSha"
    and "git_getCommit (octokit env) owner repo commitSha = Inr treeSha"
    and "git_getTree (octokit env) owner repo treeSha (js ''true'') = Inr baseTree"
    and "prepareTree localFiles (mapRemoteFiles folder baseTree []) = Inr []"
  shows "fetchAndPublish env owner repo branch folder localFiles s =
     (None,
      updateLastSyncDate env
        (s\<lparr>requests := requests s @
             [GetRef owner repo (js ''heads/'' @ branch), GetCommit owner repo commitSha,
              GetTree owner repo treeSha (js ''true'')]\<rparr>))"
    and "filter isWrite
           [GetRef owner repo (js ''heads/'' @ branch), GetCommit owner repo commitSha,
            GetTree owner repo treeSha (js ''true'')] = []"
  using assms by (simp_all add: fetchAndPublish_def send_def Let_def isWrite_def)

text \<open>
  C5 fails on the code at the empty target folder. The remote holds \<open>a.md\<close> with the
  hash of its local content, as a publish of the selection \<open>a.md\<close> leaves it; the next
  publish, with nothing changed, sends the three writes again. Under the folder
  \<open>docs\<close> the same publish sends the three reads only.
\<close>

theorem root_republish_writes_again:
  "gitBlobSha1 (js ''hello'') = Inr helloSha \<and>
   publishToGitHub (exampleEnv [blobObj (js ''a.md'') helloSha] (Inr ()))
     (examplePlugin [] [js ''a.md'']) =
   (None,
    exampleSynced [] [js ''a.md'']
      (exampleReads
       @ exampleWrites [upsertItem (localFile [] (TFile (js ''a.md'')) (js ''hello''))])) \<and>
   length (filter isWrite
     (exampleReads
       @ exampleWrites [upsertItem (localFile [] (TFile (js ''a.md'')) (js ''hello''))])) = 3 \<and>
   publishToGitHub (exampleEnv [blobObj (js ''docs/a.md'') helloSha] (Inr ()))
     (examplePlugin (js ''docs'') [js ''a.md'']) =
   (None, exampleSynced (js ''docs'') [js ''a.md''] exampleReads) \<and>
   filter isWrite exampleReads = []"
proof (intro conjI)
  show "gitBlobSha1 (js ''hello'') = Inr helloSha"
    by (simp only: gitBlobSha1_hello helloSha_def)
  have gathered: "gatherLocalFiles exampleVault (normalizeRepoFolder []) [js ''a.md''] [] =
     Inr [localFile [] (TFile (js ''a.md'')) (js ''hello'')]"
    by (simp only: normalize_examples gather_root_a)
  have prepared:
    "prepareTree [localFile [] (TFile (js ''a.md'')) (js ''hello'')]
       (mapRemoteFiles (normalizeRepoFolder []) [blobObj (js ''a.md'') helloSha] []) =
     Inr [upsertItem (localFile [] (TFile (js ''a.md'')) (js ''hello''))]"
    by (simp only: normalize_examples remote_root_empty prepare_root_a)
  show "publishToGitHub (exampleEnv [blobObj (js ''a.md'') helloSha] (Inr ()))
     (examplePlugin [] [js ''a.md'']) =
   (None,
    exampleSynced [] [js ''a.md'']
      (exampleReads
       @ exampleWrites [upsertItem (localFile [] (TFile (js ''a.md'')) (js ''hello''))]))"
    using publish_example [OF gathered prepared] by simp
  show "length (filter isWrite
     (exampleReads
       @ exampleWrites [upsertItem (localFile [] (TFile (js ''a.md'')) (js ''hello''))])) = 3"
    by (simp add: exampleReads_def exampleWrites_def isWrite_def)
  have gathered_docs:
    "gatherLocalFiles exampleVault (normalizeRepoFolder (js ''docs'')) [js ''a.md''] [] =
       Inr [localFile (js ''docs'') (TFile (js ''a.md'')) (js ''hello'')]"
    by (simp only: normalize_examples gather_example_a)
  have prepared_docs:
    "prepareTree [localFile (js ''docs'') (TFile (js ''a.md'')) (js ''hello'')]
       (mapRemoteFiles (normalizeRepoFolder (js ''docs''))
          [blobObj (js ''docs/a.md'') helloSha] []) = Inr []"
    by (simp only: normalize_examples remote_docs_a prepare_docs_a_unchanged)
  show "publishToGitHub (exampleEnv [blobObj (js ''docs/a.md'') helloSha] (Inr ()))
     (examplePlugin (js ''docs'') [js ''a.md'']) =
   (None, exampleSynced (js ''docs'') [js ''a.md''] exampleReads)"
    using publish_example [OF gathered_docs prepared_docs] by simp
  show "filter isWrite exampleReads = []"
    by (simp add: exampleReads_def isWrite_def)
qed

section \<open>Failing calls\<close>

lemma errorOf_simps:
  "errorOf (Inl e) = Some e" "errorOf (Inr x) = None"
  by (simp_all add: errorOf_def)

text \<open>
  What the \<open>try\<close> block leaves behind: it only ever appends requests; when it throws,
  settings, stored data and notices are untouched, and the error is that of the
  one request that failed, if a request failed at all; when it completes, no request
  failed, and the settings change only by the date being recorded after requests
  that hold no write or end with the update of the branch.
\<close>

lemma createAndCommit_outcome:
  assumes "createAndCommit env owner repo branch commitSha treeSha tree s = (r, s')"
  shows "\<exists>sent. requests s' = requests s @ sent \<and> sent \<noteq> [] \<and> notices s' = notices s \<and>
     (case r of
        Some e \<Rightarrow>
          settings s' = settings s \<and> savedData s' = savedData s \<and>
          (\<forall>q \<in> set sent. \<forall>e'. failure (octokit env) q = Some e' \<longrightarrow> e' = e)
      | None \<Rightarrow>
          (\<forall>q \<in> set sent. failure (octokit env) q = None) \<and>
          (\<exists>o' r' f' h'. last sent = UpdateRef o' r' f' h'))"
  using assms
  by (auto simp: createAndCommit_def Let_def send_def updateLastSyncDate_def saveSettings_def
        errorOf_simps split: sum.splits)

lemma fetchAndPublish_outcome:
  assumes "fetchAndPublish env owner repo branch folder localFiles s = (r, s')"
  shows "\<exists>sent. requests s' = requests s @ sent \<and> notices s' = notices s \<and>
     (case r of
        Some e \<Rightarrow>
          settings s' = settings s \<and> savedData s' = savedData s \<and>
          (\<forall>q \<in> set sent. \<forall>e'. failure (octokit env) q = Some e' \<longrightarrow> e' = e)
      | None \<Rightarrow>
          (\<forall>q \<in> set sent. failure (octokit env) q = None) \<and>
          (filter isWrite sent = [] \<or> (\<exists>o' r' f' h'. last sent = UpdateRef o' r' f' h')))"
proof (cases "git_getRef (octokit env) owner repo (js ''heads/'' @ branch)")
  case (Inl e)
  with assms show ?thesis
    by (auto simp: fetchAndPublish_def Let_def send_def errorOf_simps)
next
  case ref: (Inr latestCommitSha)
  show ?thesis
  proof (cases "git_getCommit (octokit env) owner repo latestCommitSha")
    case (Inl e)
    with assms ref show ?thesis
      by (auto simp: fetchAndPublish_def Let_def send_def errorOf_simps)
  next
    case commit: (Inr baseTreeSha)
    show ?thesis
    proof (cases "git_getTree (octokit env) owner repo baseTreeSha (js ''true'')")
      case (Inl e)
      with assms ref commit show ?thesis
        by (auto simp: fetchAndPublish_def Let_def send_def errorOf_simps)
    next
      case listing: (Inr baseTree)
      let ?reads = "[GetRef owner repo (js ''heads/'' @ branch),
                     GetCommit owner repo latestCommitSha,
                     GetTree owner repo baseTreeSha (js ''true'')]"
      let ?s3 = "s\<lparr>requests := requests s @ ?reads\<rparr>"
      have reads_ok: "\<forall>q \<in> set ?reads. failure (octokit env) q = None"
        using ref commit listing by (simp add: errorOf_simps)
      obtain tree where tree:
        "prepareTree localFiles (mapRemoteFiles folder baseTree []) = Inr tree"
        using prepareTree_eq by blast
      show ?thesis
      proof (cases "tree = []")
        case True
        with assms ref commit listing tree
        have "r = None" and "s' = updateLastSyncDate env ?s3"
          by (simp_all add: fetchAndPublish_def Let_def send_def)
        with reads_ok show ?thesis
          by (intro exI [of _ ?reads])
             (simp add: updateLastSyncDate_def saveSettings_def isWrite_def)
      next
        case False
        with assms ref commit listing tree
        have "createAndCommit env owner repo branch latestCommitSha baseTreeSha tree ?s3 = (r, s')"
          by (simp add: fetchAndPublish_def Let_def send_def)
        from createAndCommit_outcome [OF this]
        obtain sent where sent: "requests s' = requests ?s3 @ sent" "sent \<noteq> []"
          "notices s' = notices ?s3"
          and rest: "(case r of
              Some e \<Rightarrow>
                settings s' = settings ?s3 \<and> savedData s' = savedData ?s3 \<and>
                (\<forall>q \<in> set sent. \<forall>e'. failure (octokit env) q = Some e' \<longrightarrow> e' = e)
            | None \<Rightarrow>
                (\<forall>q \<in> set sent. failure (octokit env) q = None) \<and>
                (\<exists>o' r' f' h'. last sent = UpdateRef o' r' f' h'))"
          by blast
        from sent rest reads_ok show ?thesis
          by (intro exI [of _ "?reads @ sent"]) (auto split: option.splits)
      qed
    qed
  qed
qed

lemma publishTry_outcome:
  assumes "publishTry env s = (r, s')"
  shows "\<exists>sent. requests s' = requests s @ sent \<and>
     (case r of
        Some e \<Rightarrow>
          settings s' = settings s \<and> savedData s' = savedData s \<and> notices s' = notices s \<and>
          (\<forall>q \<in> set sent. \<forall>e'. failure (octokit env) q = Some e' \<longrightarrow> e' = e)
      | None \<Rightarrow>
          (\<forall>q \<in> set sent. failure (octokit env) q = None) \<and>
          (settings s' \<noteq> settings s \<or> savedData s' \<noteq> savedData s \<longrightarrow>
             filter isWrite sent = [] \<or> (\<exists>o' r' f' h'. last sent = UpdateRef o' r' f' h')))"
proof (cases "githubToken (settings s) = [] \<or> repoUrl (settings s) = [] \<or> repoBranch (settings s) = []")
  case True
  with assms show ?thesis
    by (intro exI [of _ "[]"]) (auto simp: publishTry_def notice_def)
next
  case valid: False
  show ?thesis
  proof (cases "parseRepoUrl (repoUrl (settings s))")
    case (Inl e)
    with assms valid show ?thesis
      by (intro exI [of _ "[]"]) (auto simp: publishTry_def)
  next
    case (Inr ownerRepo)
    obtain owner repo where parsed: "parseRepoUrl (repoUrl (settings s)) = Inr (owner, repo)"
      using Inr by (cases ownerRepo) simp
    show ?thesis
    proof (cases "gatherLocalFiles (vault env) (normalizeRepoFolder (repoFolder (settings s)))
                    (selectedPaths (settings s)) []")
      case (Inl e)
      with assms valid parsed show ?thesis
        by (intro exI [of _ "[]"]) (auto simp: publishTry_def Let_def)
    next
      case (Inr localFiles)
      with assms valid parsed
      have "fetchAndPublish env owner repo (repoBranch (settings s))
              (normalizeRepoFolder (repoFolder (settings s))) localFiles s = (r, s')"
        by (auto simp: publishTry_def Let_def)
      from fetchAndPublish_outcome [OF this] show ?thesis
        by (auto split: option.splits)
    qed
  qed
qed

lemma prepare_docs_a_new:
  "prepareTree [localFile (js ''docs'') (TFile (js ''a.md'')) (js ''hello'')]
     (mapRemoteFiles (normalizeRepoFolder (js ''docs'')) [] []) =
   Inr [upsertItem (localFile (js ''docs'') (TFile (js ''a.md'')) (js ''hello''))]"
  by (simp add: prepareTree_eq Map_get_def Map_keys_def)

lemma gather_docs_a:
  "gatherLocalFiles exampleVault (normalizeRepoFolder (js ''docs'')) [js ''a.md''] [] =
     Inr [localFile (js ''docs'') (TFile (js ''a.md'')) (js ''hello'')]"
  by (simp only: normalize_examples gather_example_a)

lemma conflict_message:
  "js ''GitHub Publisher: error during publish : '' @ js ''conflict''
     = js ''GitHub Publisher: error during publish : conflict''"
  by (simp add: js_def)

text \<open>
  C7, as the code has it. \<open>publishToGitHub\<close> never rejects. When a request it sent
  during the publish failed, the settings with the last-sync date and the stored data
  are as before, and the error was caught: a notice with its message was added. The
  settings or the stored data change only when no request failed and the requests
  sent hold no write (the empty new tree) or end with the update of the branch.
\<close>

theorem failed_call_keeps_date_and_is_caught:
  assumes "publishToGitHub env s = (r, s')"
  shows "r = None \<and>
    (\<forall>q \<in> set (drop (length (requests s)) (requests s')).
       \<forall>e. failure (octokit env) q = Some e \<longrightarrow>
         settings s' = settings s \<and> savedData s' = savedData s \<and>
         notices s' =
           notices s @ [js ''GitHub Publisher: error during publish : '' @ message e]) \<and>
    (settings s' \<noteq> settings s \<or> savedData s' \<noteq> savedData s \<longrightarrow>
       (\<forall>q \<in> set (drop (length (requests s)) (requests s')). failure (octokit env) q = None) \<and>
       (filter isWrite (drop (length (requests s)) (requests s')) = [] \<or>
        (\<exists>owner repo ref sha.
           last (drop (length (requests s)) (requests s')) = UpdateRef owner repo ref sha)))"
proof -
  obtain r0 s0 where body: "publishTry env s = (r0, s0)"
    by (cases "publishTry env s") simp
  from publishTry_outcome [OF body]
  obtain sent where sent: "requests s0 = requests s @ sent"
    and rest: "(case r0 of
        Some e \<Rightarrow>
          settings s0 = settings s \<and> savedData s0 = savedData s \<and> notices s0 = notices s \<and>
          (\<forall>q \<in> set sent. \<forall>e'. failure (octokit env) q = Some e' \<longrightarrow> e' = e)
      | None \<Rightarrow>
          (\<forall>q \<in> set sent. failure (octokit env) q = None) \<and>
          (settings s0 \<noteq> settings s \<or> savedData s0 \<noteq> savedData s \<longrightarrow>
             filter isWrite sent = [] \<or> (\<exists>o' r' f' h'. last sent = UpdateRef o' r' f' h')))"
    by blast
  show ?thesis
  proof (cases r0)
    case None
    with assms body have "r = None" and "s' = s0"
      by (simp_all add: publishToGitHub_def)
    with None sent rest show ?thesis by auto
  next
    case (Some e)
    with assms body have "r = None"
      and "s' = notice (js ''GitHub Publisher: error during publish : '' @ message e) s0"
      by (simp_all add: publishToGitHub_def)
    with Some sent rest show ?thesis by (auto simp: notice_def)
  qed
qed

theorem failed_call_keeps_date_and_is_caught_witness:
  "publishToGitHub (exampleEnv [] (Inl (RequestError 409 (js ''conflict''))))
     (examplePlugin (js ''docs'') [js ''a.md'']) =
   (None,
    (examplePlugin (js ''docs'') [js ''a.md''])
      \<lparr>notices := [js ''GitHub Publisher: error during publish : conflict''],
       requests :=
         exampleReads
         @ exampleWrites [upsertItem (localFile (js ''docs'') (TFile (js ''a.md'')) (js ''hello''))]\<rparr>) \<and>
   UpdateRef (js ''o'') (js ''r'') (js ''heads/main'') (js ''c1'')
     \<in> set (drop (length (requests (examplePlugin (js ''docs'') [js ''a.md''])))
              (exampleReads
               @ exampleWrites
                   [upsertItem (localFile (js ''docs'') (TFile (js ''a.md'')) (js ''hello''))])) \<and>
   failure (octokit (exampleEnv [] (Inl (RequestError 409 (js ''conflict'')))))
     (UpdateRef (js ''o'') (js ''r'') (js ''heads/main'') (js ''c1''))
     = Some (RequestError 409 (js ''conflict'')) \<and>
   lastSyncDate (settings (examplePlugin (js ''docs'') [js ''a.md''])) = None"
proof -
  let ?env = "exampleEnv [] (Inl (RequestError 409 (js ''conflict'')))"
  let ?s = "examplePlugin (js ''docs'') [js ''a.md'']"
  let ?sent = "exampleReads
     @ exampleWrites [upsertItem (localFile (js ''docs'') (TFile (js ''a.md'')) (js ''hello''))]"
  let ?s' = "?s\<lparr>notices := [js ''GitHub Publisher: error during publish : conflict''],
                 requests := ?sent\<rparr>"
  have run: "publishToGitHub ?env ?s = (None, ?s')"
    using publish_example [OF gather_docs_a prepare_docs_a_new,
        of "Inl (RequestError 409 (js ''conflict''))"]
    by (simp add: conflict_message exampleWrites_def)
  have sent: "UpdateRef (js ''o'') (js ''r'') (js ''heads/main'') (js ''c1'')
      \<in> set (drop (length (requests ?s)) (requests ?s'))"
    by (simp add: examplePlugin_sel exampleWrites_def)
  have failed: "failure (octokit ?env)
      (UpdateRef (js ''o'') (js ''r'') (js ''heads/main'') (js ''c1''))
      = Some (RequestError 409 (js ''conflict''))"
    by (simp add: exampleEnv_sel errorOf_simps)
  from failed_call_keeps_date_and_is_caught [OF run] sent failed
  have "settings ?s' = settings ?s"
    by blast
  then have "lastSyncDate (settings ?s) = None"
    by (simp add: examplePlugin_def)
  with run sent failed show ?thesis
    by (simp add: examplePlugin_sel)
qed

text \<open>
  C7 as stated fails in its last part: when update-ref answers with a conflict, the
  \<open>try\<close> block throws that error, and \<open>publishToGitHub\<close> catches it, shows the notice
  and completes; nothing reaches the caller.
\<close>

theorem conflict_does_not_reach_caller_counterexample:
  "fst (publishTry (exampleEnv [] (Inl (RequestError 409 (js ''conflict''))))
          (examplePlugin (js ''docs'') [js ''a.md''])) =
     Some (RequestError 409 (js ''conflict'')) \<and>
   fst (publishToGitHub (exampleEnv [] (Inl (RequestError 409 (js ''conflict''))))
          (examplePlugin (js ''docs'') [js ''a.md''])) = None \<and>
   notices (snd (publishToGitHub (exampleEnv [] (Inl (RequestError 409 (js ''conflict''))))
                   (examplePlugin (js ''docs'') [js ''a.md'']))) =
     [js ''GitHub Publisher: error during publish : conflict'']"
  using publishTry_example [OF gather_docs_a prepare_docs_a_new,
      of "Inl (RequestError 409 (js ''conflict''))"]
    publish_example [OF gather_docs_a prepare_docs_a_new,
      of "Inl (RequestError 409 (js ''conflict''))"]
  by (simp add: conflict_message)

section \<open>Selected paths that resolve to nothing\<close>



lemma publishToGitHub_alt:
  "publishToGitHub env s =
     (None,
      case fst (publishTry env s) of
        None \<Rightarrow> snd (publishTry env s)
      | Some e \<Rightarrow>
          notice (js ''GitHub Publisher: error during publish : '' @ message e)
            (snd (publishTry env s)))"
  by (cases "publishTry env s") (simp add: publishToGitHub_def split: option.splits)

lemma notice_sel:
  "requests (notice m s) = requests s"
  "notices (notice m s) = notices s @ [m]"
  "settings (notice m s) = settings s"
  "savedData (notice m s) = savedData s"
  by (simp_all add: notice_def)





lemma remote_docs_gone:
  "mapRemoteFiles (normalizeRepoFolder (js ''docs'')) [blobObj (js ''docs/gone.md'') emptySha] [] =
     [(js ''docs/gone.md'', emptySha)]"
  by (simp only: normalize_examples) (simp add: example_eval inRepoFolder_def startsWith_def)

lemma prepare_docs_gone:
  "prepareTree [localFile (js ''docs'') (TFile (js ''a.md'')) (js ''hello'')]
     (mapRemoteFiles (normalizeRepoFolder (js ''docs'')) [blobObj (js ''docs/gone.md'') emptySha] []) =
   Inr [upsertItem (localFile (js ''docs'') (TFile (js ''a.md'')) (js ''hello'')),
        deleteItem (js ''docs/gone.md'')]"
  by (simp only: remote_docs_gone)
     (simp add: prepareTree_eq localFile_sel repoPath_examples Map_get_def Map_keys_def;
      simp add: js_def)



section \<open>The normalized target folder\<close>

lemma replaceSlashes_inner:
  "0 < i \<Longrightarrow>
     replaceSlashes i cs = (if cs \<noteq> [] \<and> last cs = 0x2F then butlast cs else cs)"
  by (induction cs arbitrary: i) auto

lemma normalizeRepoFolder_spec: "normalizeRepoFolder folder = spec_stripSlashes folder"
proof (cases folder)
  case Nil
  then show ?thesis
    by (simp add: normalizeRepoFolder_def spec_stripSlashes_def)
next
  case (Cons c cs)
  then show ?thesis
    using replaceSlashes_inner [of 1 cs]
    by (auto simp: normalizeRepoFolder_def spec_stripSlashes_def)
qed

text \<open>
  The publish reads the folder setting only through its normalized value: two
  settings with the same normalized folder give the same outcome.
\<close>

lemma publishTry_folder:
  assumes "normalizeRepoFolder f = normalizeRepoFolder g"
  shows "fst (publishTry env (s\<lparr>settings := (settings s)\<lparr>repoFolder := f\<rparr>\<rparr>)) =
           fst (publishTry env (s\<lparr>settings := (settings s)\<lparr>repoFolder := g\<rparr>\<rparr>))"
    and "requests (snd (publishTry env (s\<lparr>settings := (settings s)\<lparr>repoFolder := f\<rparr>\<rparr>))) =
           requests (snd (publishTry env (s\<lparr>settings := (settings s)\<lparr>repoFolder := g\<rparr>\<rparr>)))"
    and "notices (snd (publishTry env (s\<lparr>settings := (settings s)\<lparr>repoFolder := f\<rparr>\<rparr>))) =
           notices (snd (publishTry env (s\<lparr>settings := (settings s)\<lparr>repoFolder := g\<rparr>\<rparr>)))"
    and "lastSyncDate (settings (snd (publishTry env
            (s\<lparr>settings := (settings s)\<lparr>repoFolder := f\<rparr>\<rparr>)))) =
           lastSyncDate (settings (snd (publishTry env
            (s\<lparr>settings := (settings s)\<lparr>repoFolder := g\<rparr>\<rparr>))))"
  using assms
  by (auto simp: publishTry_def fetchAndPublish_def createAndCommit_def Let_def send_def
        notice_def updateLastSyncDate_def saveSettings_def
      split: sum.splits prod.splits)

lemma publishToGitHub_folder:
  assumes "normalizeRepoFolder f = normalizeRepoFolder g"
  shows "fst (publishToGitHub env (s\<lparr>settings := (settings s)\<lparr>repoFolder := f\<rparr>\<rparr>)) =
           fst (publishToGitHub env (s\<lparr>settings := (settings s)\<lparr>repoFolder := g\<rparr>\<rparr>))"
    and "requests (snd (publishToGitHub env (s\<lparr>settings := (settings s)\<lparr>repoFolder := f\<rparr>\<rparr>))) =
           requests (snd (publishToGitHub env (s\<lparr>settings := (settings s)\<lparr>repoFolder := g\<rparr>\<rparr>)))"
    and "notices (snd (publishToGitHub env (s\<lparr>settings := (settings s)\<lparr>repoFolder := f\<rparr>\<rparr>))) =
           notices (snd (publishToGitHub env (s\<lparr>settings := (settings s)\<lparr>repoFolder := g\<rparr>\<rparr>)))"
    and "lastSyncDate (settings (snd (publishToGitHub env
            (s\<lparr>settings := (settings s)\<lparr>repoFolder := f\<rparr>\<rparr>)))) =
           lastSyncDate (settings (snd (publishToGitHub env
            (s\<lparr>settings := (settings s)\<lparr>repoFolder := g\<rparr>\<rparr>))))"
  using publishTry_folder [OF assms, of env s]
  by (simp_all add: publishToGitHub_alt notice_sel split: option.splits)

text \<open>
  C10. The folder setting is used only after one leading and one trailing slash
  have been removed from it: the scan of the source agrees with that description,
  the settings \<open>docs\<close>, \<open>/docs\<close>, \<open>docs/\<close> and \<open>/docs/\<close> all normalize to \<open>docs\<close> and so
  give the same gathered entries with the same remote paths, the same remote map and
  the same requests, while \<open>//docs\<close> normalizes to \<open>/docs\<close>, which is another folder.
\<close>

theorem folder_setting_is_normalized:
  "normalizeRepoFolder folder = spec_stripSlashes folder \<and>
   normalizeRepoFolder (js ''docs'') = js ''docs'' \<and>
   normalizeRepoFolder (js ''/docs'') = js ''docs'' \<and>
   normalizeRepoFolder (js ''docs/'') = js ''docs'' \<and>
   normalizeRepoFolder (js ''/docs/'') = js ''docs'' \<and>
   normalizeRepoFolder (js ''//docs'') = js ''/docs'' \<and>
   js ''/docs'' \<noteq> js ''docs'' \<and>
   repoPathOf (normalizeRepoFolder (js ''//docs'')) (js ''a.md'') \<noteq>
     repoPathOf (normalizeRepoFolder (js ''docs'')) (js ''a.md'') \<and>
   (\<forall>f \<in> {js ''docs'', js ''/docs'', js ''docs/'', js ''/docs/''}.
      gatherLocalFiles v (normalizeRepoFolder f) paths [] =
        gatherLocalFiles v (js ''docs'') paths [] \<and>
      mapRemoteFiles (normalizeRepoFolder f) baseTree [] =
        mapRemoteFiles (js ''docs'') baseTree [] \<and>
      fst (publishToGitHub env (s\<lparr>settings := (settings s)\<lparr>repoFolder := f\<rparr>\<rparr>)) =
        fst (publishToGitHub env (s\<lparr>settings := (settings s)\<lparr>repoFolder := js ''docs''\<rparr>\<rparr>)) \<and>
      requests (snd (publishToGitHub env (s\<lparr>settings := (settings s)\<lparr>repoFolder := f\<rparr>\<rparr>))) =
        requests (snd (publishToGitHub env
          (s\<lparr>settings := (settings s)\<lparr>repoFolder := js ''docs''\<rparr>\<rparr>))) \<and>
      notices (snd (publishToGitHub env (s\<lparr>settings := (settings s)\<lparr>repoFolder := f\<rparr>\<rparr>))) =
        notices (snd (publishToGitHub env
          (s\<lparr>settings := (settings s)\<lparr>repoFolder := js ''docs''\<rparr>\<rparr>))) \<and>
      lastSyncDate (settings (snd (publishToGitHub env
          (s\<lparr>settings := (settings s)\<lparr>repoFolder := f\<rparr>\<rparr>)))) =
        lastSyncDate (settings (snd (publishToGitHub env
          (s\<lparr>settings := (settings s)\<lparr>repoFolder := js ''docs''\<rparr>\<rparr>)))))"
proof (intro conjI ballI)
  show "normalizeRepoFolder folder = spec_stripSlashes folder"
    by (rule normalizeRepoFolder_spec)
  show "normalizeRepoFolder (js ''docs'') = js ''docs''"
    and "normalizeRepoFolder (js ''/docs'') = js ''docs''"
    and "normalizeRepoFolder (js ''docs/'') = js ''docs''"
    and "normalizeRepoFolder (js ''/docs/'') = js ''docs''"
    and "normalizeRepoFolder (js ''//docs'') = js ''/docs''"
    by (rule normalize_examples)+
  show "js ''/docs'' \<noteq> js ''docs''"
    by (simp add: js_def)
  show "repoPathOf (normalizeRepoFolder (js ''//docs'')) (js ''a.md'') \<noteq>
     repoPathOf (normalizeRepoFolder (js ''docs'')) (js ''a.md'')"
    by (simp only: normalize_examples) (simp add: repoPathOf_def js_def)
next
  fix f assume "f \<in> {js ''docs'', js ''/docs'', js ''docs/'', js ''/docs/''}"
  then have same: "normalizeRepoFolder f = js ''docs''"
    using normalize_examples by auto
  then have eq: "normalizeRepoFolder f = normalizeRepoFolder (js ''docs'')"
    by (simp only: normalize_examples)
  from same show "gatherLocalFiles v (normalizeRepoFolder f) paths [] =
        gatherLocalFiles v (js ''docs'') paths []"
    and "mapRemoteFiles (normalizeRepoFolder f) baseTree [] =
        mapRemoteFiles (js ''docs'') baseTree []"
    by simp_all
  from publishToGitHub_folder [OF eq, of env s]
  show "fst (publishToGitHub env (s\<lparr>settings := (settings s)\<lparr>repoFolder := f\<rparr>\<rparr>)) =
        fst (publishToGitHub env (s\<lparr>settings := (settings s)\<lparr>repoFolder := js ''docs''\<rparr>\<rparr>))"
    and "requests (snd (publishToGitHub env (s\<lparr>settings := (settings s)\<lparr>repoFolder := f\<rparr>\<rparr>))) =
        requests (snd (publishToGitHub env
          (s\<lparr>settings := (settings s)\<lparr>repoFolder := js ''docs''\<rparr>\<rparr>)))"
    and "notices (snd (publishToGitHub env (s\<lparr>settings := (settings s)\<lparr>repoFolder := f\<rparr>\<rparr>))) =
        notices (snd (publishToGitHub env
          (s\<lparr>settings := (settings s)\<lparr>repoFolder := js ''docs''\<rparr>\<rparr>)))"
    and "lastSyncDate (settings (snd (publishToGitHub env
          (s\<lparr>settings := (settings s)\<lparr>repoFolder := f\<rparr>\<rparr>)))) =
        lastSyncDate (settings (snd (publishToGitHub env
          (s\<lparr>settings := (settings s)\<lparr>repoFolder := js ''docs''\<rparr>\<rparr>))))"
    by blast+
qed

theorem folder_setting_is_normalized_witness:
  "js ''/docs/'' \<in> {js ''docs'', js ''/docs'', js ''docs/'', js ''/docs/''} \<and>
   requests (snd (publishToGitHub (exampleEnv [blobObj (js ''docs/gone.md'') emptySha] (Inr ()))
                    (examplePlugin (js ''/docs/'') [js ''a.md'']))) =
     exampleReads
     @ exampleWrites
         [upsertItem (localFile (js ''docs'') (TFile (js ''a.md'')) (js ''hello'')),
          deleteItem (js ''docs/gone.md'')]"
proof -
  let ?env = "exampleEnv [blobObj (js ''docs/gone.md'') emptySha] (Inr ())"
  let ?s = "examplePlugin (js ''x'') [js ''a.md'']"
  have member: "js ''/docs/'' \<in> {js ''docs'', js ''/docs'', js ''docs/'', js ''/docs/''}"
    by simp
  have with_slashes: "?s\<lparr>settings := (settings ?s)\<lparr>repoFolder := js ''/docs/''\<rparr>\<rparr> =
      examplePlugin (js ''/docs/'') [js ''a.md'']"
    and plain: "?s\<lparr>settings := (settings ?s)\<lparr>repoFolder := js ''docs''\<rparr>\<rparr> =
      examplePlugin (js ''docs'') [js ''a.md'']"
    by (simp_all add: examplePlugin_def)
  from folder_setting_is_normalized [of _ _ _ _ ?env ?s] member
  have "requests (snd (publishToGitHub ?env
            (?s\<lparr>settings := (settings ?s)\<lparr>repoFolder := js ''/docs/''\<rparr>\<rparr>))) =
        requests (snd (publishToGitHub ?env
            (?s\<lparr>settings := (settings ?s)\<lparr>repoFolder := js ''docs''\<rparr>\<rparr>)))"
    by blast
  then have "requests (snd (publishToGitHub ?env (examplePlugin (js ''/docs/'') [js ''a.md'']))) =
      requests (snd (publishToGitHub ?env (examplePlugin (js ''docs'') [js ''a.md''])))"
    by (simp only: with_slashes plain)
  also have "\<dots> =
     exampleReads
     @ exampleWrites
         [upsertItem (localFile (js ''docs'') (TFile (js ''a.md'')) (js ''hello'')),
          deleteItem (js ''docs/gone.md'')]"
    using publish_example [OF gather_docs_a prepare_docs_gone, of "Inr ()"]
    by (simp add: exampleSynced_def)
  finally show ?thesis using member by blast
qed

section \<open>The upserts that reach create-tree\<close>

lemma Map_set_keys: "set (Map_keys (Map_set k v m)) = insert k (set (Map_keys m))"
proof (induction m)
  case Nil
  show ?case by (simp add: Map_keys_def)
next
  case (Cons kv m)
  then show ?case by (cases kv) (auto simp: Map_keys_def)
qed

lemma mapRemoteFiles_keys:
  "set (Map_keys (mapRemoteFiles folder objs m)) =
     set (Map_keys m) \<union> {p. \<exists>obj \<in> set objs. inRepoFolder folder obj \<and> obj_path obj = Some p}"
proof (induction objs arbitrary: m)
  case Nil
  show ?case by simp
next
  case (Cons obj objs)
  show ?case
  proof (cases "inRepoFolder folder obj")
    case False
    then show ?thesis by (auto simp: Cons.IH)
  next
    case True
    then obtain p where "obj_path obj = Some p"
      by (cases "obj_path obj") (auto simp: inRepoFolder_def)
    with True show ?thesis by (auto simp: Cons.IH Map_set_keys)
  qed
qed

lemma Map_get_keys: "(Map_get m p \<noteq> None) = (p \<in> set (Map_keys m))"
  by (simp add: Map_get_def Map_keys_def map_of_eq_None_iff)

lemma remote_map_has_hash_iff:
  "(Map_get (mapRemoteFiles folder baseTree []) p \<noteq> None) =
     (\<exists>obj \<in> set baseTree. inRepoFolder folder obj \<and> obj_path obj = Some p)"
  by (simp only: Map_get_keys mapRemoteFiles_keys) (simp add: Map_keys_def)

text \<open>
  The writes start with the create-tree request that carries the new tree, and send
  no second one.
\<close>

lemma createAndCommit_requests:
  "\<exists>rest. requests (snd (createAndCommit env owner repo branch commitSha treeSha tree s)) =
            requests s @ CreateTree owner repo treeSha tree # rest \<and>
          (\<forall>q \<in> set rest. \<forall>o' r' b' t'. q \<noteq> CreateTree o' r' b' t')"
  by (auto simp: createAndCommit_def Let_def send_def updateLastSyncDate_def saveSettings_def
      split: sum.splits)

lemma publishToGitHub_requests:
  "requests (snd (publishToGitHub env s)) = requests (snd (publishTry env s))"
  by (simp add: publishToGitHub_alt notice_sel split: option.splits)

lemma publishTry_with_tree:
  assumes "githubToken (settings s) \<noteq> []" and "repoUrl (settings s) \<noteq> []"
    and "repoBranch (settings s) \<noteq> []"
    and "parseRepoUrl (repoUrl (settings s)) = Inr (owner, repo)"
    and "gatherLocalFiles (vault env) (normalizeRepoFolder (repoFolder (settings s)))
           (selectedPaths (settings s)) [] = Inr localFiles"
    and "git_getRef (octokit env) owner repo (js ''heads/'' @ repoBranch (settings s)) = Inr commitSha"
    and "git_getCommit (octokit env) owner repo commitSha = Inr treeSha"
    and "git_getTree (octokit env) owner repo treeSha (js ''true'') = Inr baseTree"
    and "prepareTree localFiles
           (mapRemoteFiles (normalizeRepoFolder (repoFolder (settings s))) baseTree []) = Inr tree"
  shows "publishTry env s =
     (if tree = []
      then (None,
            updateLastSyncDate env
              (s\<lparr>requests := requests s @
                   [GetRef owner repo (js ''heads/'' @ repoBranch (settings s)),
                    GetCommit owner repo commitSha,
                    GetTree owner repo treeSha (js ''true'')]\<rparr>))
      else createAndCommit env owner repo (repoBranch (settings s)) commitSha treeSha tree
             (s\<lparr>requests := requests s @
                  [GetRef owner repo (js ''heads/'' @ repoBranch (settings s)),
                   GetCommit owner repo commitSha,
                   GetTree owner repo treeSha (js ''true'')]\<rparr>))"
  using assms by (simp add: publishTry_def fetchAndPublish_def Let_def send_def)

lemma sent_requests:
  assumes "githubToken (settings s) \<noteq> []" and "repoUrl (settings s) \<noteq> []"
    and "repoBranch (settings s) \<noteq> []"
    and "parseRepoUrl (repoUrl (settings s)) = Inr (owner, repo)"
    and "gatherLocalFiles (vault env) (normalizeRepoFolder (repoFolder (settings s)))
           (selectedPaths (settings s)) [] = Inr localFiles"
    and "git_getRef (octokit env) owner repo (js ''heads/'' @ repoBranch (settings s)) = Inr commitSha"
    and "git_getCommit (octokit env) owner repo commitSha = Inr treeSha"
    and "git_getTree (octokit env) owner repo treeSha (js ''true'') = Inr baseTree"
    and "prepareTree localFiles
           (mapRemoteFiles (normalizeRepoFolder (repoFolder (settings s))) baseTree []) = Inr tree"
  shows "\<exists>rest.
      drop (length (requests s)) (requests (snd (publishToGitHub env s))) =
        [GetRef owner repo (js ''heads/'' @ repoBranch (settings s)),
         GetCommit owner repo commitSha,
         GetTree owner repo treeSha (js ''true'')]
        @ (if tree = [] then [] else CreateTree owner repo treeSha tree # rest) \<and>
      (\<forall>q \<in> set rest. \<forall>o' r' b' t'. q \<noteq> CreateTree o' r' b' t')"
proof (cases "tree = []")
  case True
  with publishTry_with_tree [OF assms] show ?thesis
    by (intro exI [of _ "[]"])
       (simp add: publishToGitHub_requests updateLastSyncDate_def saveSettings_def)
next
  case False
  let ?s3 = "s\<lparr>requests := requests s @
                  [GetRef owner repo (js ''heads/'' @ repoBranch (settings s)),
                   GetCommit owner repo commitSha,
                   GetTree owner repo treeSha (js ''true'')]\<rparr>"
  from createAndCommit_requests [of env owner repo "repoBranch (settings s)" commitSha treeSha tree ?s3]
  obtain rest where
    "requests (snd (createAndCommit env owner repo (repoBranch (settings s)) commitSha treeSha
        tree ?s3)) = requests ?s3 @ CreateTree owner repo treeSha tree # rest"
    and "\<forall>q \<in> set rest. \<forall>o' r' b' t'. q \<noteq> CreateTree o' r' b' t'"
    by blast
  with False publishTry_with_tree [OF assms] show ?thesis
    by (intro exI [of _ rest]) (simp add: publishToGitHub_requests)
qed

lemma upserts_of_tree:
  "filter (\<lambda>item. item_content item \<noteq> None) (map upsertItem fs @ map deleteItem ps) =
     map upsertItem fs"
  by (simp add: filter_map o_def upsertItem_def deleteItem_def)

lemma gather_docs_a_d:
  "gatherLocalFiles exampleVault (normalizeRepoFolder (js ''docs'')) [js ''a.md'', js ''d''] [] =
     Inr [localFile (js ''docs'') (TFile (js ''a.md'')) (js ''hello''),
          localFile (js ''docs'') (TFile (js ''d/b.md'')) []]"
  by (simp only: normalize_examples gather_example_a_d)

lemma gather_docs_a_d_b:
  "gatherLocalFiles exampleVault (normalizeRepoFolder (js ''docs''))
     [js ''a.md'', js ''d'', js ''d/b.md''] [] =
     Inr [localFile (js ''docs'') (TFile (js ''a.md'')) (js ''hello''),
          localFile (js ''docs'') (TFile (js ''d/b.md'')) [],
          localFile (js ''docs'') (TFile (js ''d/b.md'')) []]"
  by (simp only: normalize_examples)
     (simp add: example_eval getAbstractFileByPath_def vault_read_def)

lemma remote_docs_a_b:
  "mapRemoteFiles (normalizeRepoFolder (js ''docs''))
     [blobObj (js ''docs/a.md'') helloSha, blobObj (js ''docs/d/b.md'') helloSha] [] =
   [(js ''docs/a.md'', helloSha), (js ''docs/d/b.md'', helloSha)]"
  by (simp only: normalize_examples) (simp add: example_eval inRepoFolder_def startsWith_def)

lemma prepare_docs_one_changed:
  "prepareTree
     [localFile (js ''docs'') (TFile (js ''a.md'')) (js ''hello''),
      localFile (js ''docs'') (TFile (js ''d/b.md'')) []]
     (mapRemoteFiles (normalizeRepoFolder (js ''docs''))
        [blobObj (js ''docs/a.md'') helloSha, blobObj (js ''docs/d/b.md'') helloSha] []) =
   Inr [upsertItem (localFile (js ''docs'') (TFile (js ''d/b.md'')) [])]"
  by (simp only: remote_docs_a_b)
     (simp add: prepareTree_eq localFile_sel repoPath_examples Map_get_def Map_keys_def
        gitBlobSha1_hello gitBlobSha1_empty helloSha_def;
      simp add: js_def)

lemma prepare_docs_changed_twice:
  "prepareTree
     [localFile (js ''docs'') (TFile (js ''a.md'')) (js ''hello''),
      localFile (js ''docs'') (TFile (js ''d/b.md'')) [],
      localFile (js ''docs'') (TFile (js ''d/b.md'')) []]
     (mapRemoteFiles (normalizeRepoFolder (js ''docs''))
        [blobObj (js ''docs/a.md'') helloSha, blobObj (js ''docs/d/b.md'') helloSha] []) =
   Inr [upsertItem (localFile (js ''docs'') (TFile (js ''d/b.md'')) []),
        upsertItem (localFile (js ''docs'') (TFile (js ''d/b.md'')) [])]"
  by (simp only: remote_docs_a_b)
     (simp add: prepareTree_eq localFile_sel repoPath_examples Map_get_def Map_keys_def
        gitBlobSha1_hello gitBlobSha1_empty helloSha_def;
      simp add: js_def)

text \<open>
  C3, as the code has it. In a publish that reaches the diff, the remote map holds a
  hash for a path exactly when the listing has a blob under the target folder at that
  path, and the requests sent are the three reads followed, when the new tree is not
  empty, by the one create-tree request that carries it. For every gathered local
  entry that tree holds the upsert entry of the entry (its repoPath, mode 100644, its
  content inline) if and only if the remote map has no hash for the repoPath or a hash
  other than \<open>gitBlobSha1\<close> of the content, and its upserts are those of the gathered
  entries that differ, one for each, in order: a changed file gathered by two routes
  is upserted twice. Hence, when exactly one entry of the gathered list differs, every
  other gathered entry has its hash in the remote map and the remote map holds no
  other path, the tree passed to create-tree is that one upsert and nothing else; so
  it is for \<open>a.md\<close> unchanged and \<open>d/b.md\<close> changed under the folder \<open>docs\<close>.
\<close>

theorem changed_entries_are_the_upserts_sent:
  assumes "githubToken (settings s) \<noteq> []" and "repoUrl (settings s) \<noteq> []"
    and "repoBranch (settings s) \<noteq> []"
    and "parseRepoUrl (repoUrl (settings s)) = Inr (owner, repo)"
    and folder: "folder = normalizeRepoFolder (repoFolder (settings s))"
    and "gatherLocalFiles (vault env) folder (selectedPaths (settings s)) [] = Inr localFiles"
    and "git_getRef (octokit env) owner repo (js ''heads/'' @ repoBranch (settings s)) = Inr commitSha"
    and "git_getCommit (octokit env) owner repo commitSha = Inr treeSha"
    and "git_getTree (octokit env) owner repo treeSha (js ''true'') = Inr baseTree"
    and remote: "remoteFiles = mapRemoteFiles folder baseTree []"
    and sent: "sent = drop (length (requests s)) (requests (snd (publishToGitHub env s)))"
  shows
   "(item_path (upsertItem entry) = repoPath entry \<and>
     item_mode (upsertItem entry) = js ''100644'' \<and>
     item_content (upsertItem entry) = Some (content entry)) \<and>
    (\<forall>p. (Map_get remoteFiles p \<noteq> None) =
          (\<exists>obj \<in> set baseTree. inRepoFolder folder obj \<and> obj_path obj = Some p)) \<and>
    (\<exists>tree rest.
       sent =
         [GetRef owner repo (js ''heads/'' @ repoBranch (settings s)),
          GetCommit owner repo commitSha,
          GetTree owner repo treeSha (js ''true'')]
         @ (if tree = [] then [] else CreateTree owner repo treeSha tree # rest) \<and>
       (\<forall>q \<in> set rest. \<forall>o' r' b' t'. q \<noteq> CreateTree o' r' b' t') \<and>
       (\<forall>f \<in> set localFiles.
          (upsertItem f \<in> set tree) =
          (map_option Inr (Map_get remoteFiles (repoPath f)) \<noteq> Some (gitBlobSha1 (content f)))) \<and>
       filter (\<lambda>item. item_content item \<noteq> None) tree =
         map upsertItem
           (filter (\<lambda>f. map_option Inr (Map_get remoteFiles (repoPath f))
                         \<noteq> Some (gitBlobSha1 (content f))) localFiles) \<and>
       (\<forall>before changed after.
          localFiles = before @ changed # after \<and>
          map_option Inr (Map_get remoteFiles (repoPath changed))
            \<noteq> Some (gitBlobSha1 (content changed)) \<and>
          (\<forall>other \<in> set (before @ after).
             map_option Inr (Map_get remoteFiles (repoPath other))
               = Some (gitBlobSha1 (content other))) \<and>
          set (Map_keys remoteFiles) \<subseteq> repoPath ` set localFiles
          \<longrightarrow> tree = [upsertItem changed])) \<and>
    publishToGitHub
      (exampleEnv [blobObj (js ''docs/a.md'') helloSha, blobObj (js ''docs/d/b.md'') helloSha]
         (Inr ()))
      (examplePlugin (js ''docs'') [js ''a.md'', js ''d'']) =
    (None,
     exampleSynced (js ''docs'') [js ''a.md'', js ''d'']
       (exampleReads
        @ exampleWrites [upsertItem (localFile (js ''docs'') (TFile (js ''d/b.md'')) [])]))"
proof (intro conjI)
  show "item_path (upsertItem entry) = repoPath entry"
    and "item_mode (upsertItem entry) = js ''100644''"
    and "item_content (upsertItem entry) = Some (content entry)"
    by (simp_all add: upsertItem_def)
  show "\<forall>p. (Map_get remoteFiles p \<noteq> None) =
          (\<exists>obj \<in> set baseTree. inRepoFolder folder obj \<and> obj_path obj = Some p)"
    unfolding remote using remote_map_has_hash_iff by blast
  show "publishToGitHub
      (exampleEnv [blobObj (js ''docs/a.md'') helloSha, blobObj (js ''docs/d/b.md'') helloSha]
         (Inr ()))
      (examplePlugin (js ''docs'') [js ''a.md'', js ''d'']) =
    (None,
     exampleSynced (js ''docs'') [js ''a.md'', js ''d'']
       (exampleReads
        @ exampleWrites [upsertItem (localFile (js ''docs'') (TFile (js ''d/b.md'')) [])]))"
    using publish_example [OF gather_docs_a_d prepare_docs_one_changed, of "Inr ()"] by simp
next
  let ?differs = "\<lambda>g. map_option Inr (Map_get remoteFiles (repoPath g))
                        \<noteq> Some (gitBlobSha1 (content g))"
  let ?dels = "filter (\<lambda>q. q \<notin> repoPath ` set localFiles) (Map_keys remoteFiles)"
  let ?tree = "map upsertItem (filter ?differs localFiles) @ map deleteItem ?dels"
  have prepared: "prepareTree localFiles
      (mapRemoteFiles (normalizeRepoFolder (repoFolder (settings s))) baseTree []) = Inr ?tree"
    unfolding remote folder by (rule prepareTree_eq)
  from sent_requests [OF assms(1-4) assms(6) [unfolded folder] assms(7-9) prepared]
  obtain rest where reqs: "sent =
         [GetRef owner repo (js ''heads/'' @ repoBranch (settings s)),
          GetCommit owner repo commitSha,
          GetTree owner repo treeSha (js ''true'')]
         @ (if ?tree = [] then [] else CreateTree owner repo treeSha ?tree # rest)"
    and only: "\<forall>q \<in> set rest. \<forall>o' r' b' t'. q \<noteq> CreateTree o' r' b' t'"
    unfolding sent by blast
  have each: "\<forall>f \<in> set localFiles. (upsertItem f \<in> set ?tree) = ?differs f"
    using upsert_in_tree_iff [of _ localFiles remoteFiles ?dels] by blast
  have ups: "filter (\<lambda>item. item_content item \<noteq> None) ?tree =
      map upsertItem (filter ?differs localFiles)"
    by (rule upserts_of_tree)
  have one: "\<forall>before changed after.
          localFiles = before @ changed # after \<and> ?differs changed \<and>
          (\<forall>other \<in> set (before @ after).
             map_option Inr (Map_get remoteFiles (repoPath other))
               = Some (gitBlobSha1 (content other))) \<and>
          set (Map_keys remoteFiles) \<subseteq> repoPath ` set localFiles
          \<longrightarrow> ?tree = [upsertItem changed]"
  proof (intro allI impI)
    fix before changed after
    assume h: "localFiles = before @ changed # after \<and> ?differs changed \<and>
          (\<forall>other \<in> set (before @ after).
             map_option Inr (Map_get remoteFiles (repoPath other))
               = Some (gitBlobSha1 (content other))) \<and>
          set (Map_keys remoteFiles) \<subseteq> repoPath ` set localFiles"
    then have split: "localFiles = before @ changed # after" and differs: "?differs changed"
      and same: "\<forall>other \<in> set (before @ after). \<not> ?differs other"
      and keys: "set (Map_keys remoteFiles) \<subseteq> repoPath ` set localFiles"
      by blast+
    have "filter ?differs localFiles = [changed]"
      unfolding split using differs same by (rule filter_single_changed)
    moreover have "?dels = []"
      using keys by (auto simp: filter_empty_conv)
    ultimately show "?tree = [upsertItem changed]" by simp
  qed
  from reqs only each ups one
  show "\<exists>tree rest.
       sent =
         [GetRef owner repo (js ''heads/'' @ repoBranch (settings s)),
          GetCommit owner repo commitSha,
          GetTree owner repo treeSha (js ''true'')]
         @ (if tree = [] then [] else CreateTree owner repo treeSha tree # rest) \<and>
       (\<forall>q \<in> set rest. \<forall>o' r' b' t'. q \<noteq> CreateTree o' r' b' t') \<and>
       (\<forall>f \<in> set localFiles. (upsertItem f \<in> set tree) = ?differs f) \<and>
       filter (\<lambda>item. item_content item \<noteq> None) tree =
         map upsertItem (filter ?differs localFiles) \<and>
       (\<forall>before changed after.
          localFiles = before @ changed # after \<and> ?differs changed \<and>
          (\<forall>other \<in> set (before @ after).
             map_option Inr (Map_get remoteFiles (repoPath other))
               = Some (gitBlobSha1 (content other))) \<and>
          set (Map_keys remoteFiles) \<subseteq> repoPath ` set localFiles
          \<longrightarrow> tree = [upsertItem changed])"
    by (intro exI [of _ ?tree] exI [of _ rest] conjI)
qed

theorem changed_entries_are_the_upserts_sent_witness:
  "parseRepoUrl (repoUrl (settings (examplePlugin (js ''docs'') [js ''a.md'', js ''d'']))) =
     Inr (js ''o'', js ''r'') \<and>
   gatherLocalFiles exampleVault (normalizeRepoFolder (js ''docs'')) [js ''a.md'', js ''d''] [] =
     Inr [localFile (js ''docs'') (TFile (js ''a.md'')) (js ''hello''),
          localFile (js ''docs'') (TFile (js ''d/b.md'')) []] \<and>
   mapRemoteFiles (normalizeRepoFolder (js ''docs''))
     [blobObj (js ''docs/a.md'') helloSha, blobObj (js ''docs/d/b.md'') helloSha] [] =
     [(js ''docs/a.md'', helloSha), (js ''docs/d/b.md'', helloSha)] \<and>
   gitBlobSha1 (js ''hello'') = Inr helloSha \<and>
   gitBlobSha1 [] \<noteq> Inr helloSha \<and>
   (\<exists>rest.
      drop (length (requests (examplePlugin (js ''docs'') [js ''a.md'', js ''d''])))
        (requests (snd (publishToGitHub
           (exampleEnv [blobObj (js ''docs/a.md'') helloSha, blobObj (js ''docs/d/b.md'') helloSha]
              (Inr ()))
           (examplePlugin (js ''docs'') [js ''a.md'', js ''d''])))) =
      exampleReads
      @ CreateTree (js ''o'') (js ''r'') (js ''t0'')
          [upsertItem (localFile (js ''docs'') (TFile (js ''d/b.md'')) [])] # rest)"
proof -
  let ?env = "exampleEnv [blobObj (js ''docs/a.md'') helloSha, blobObj (js ''docs/d/b.md'') helloSha]
                (Inr ())"
  let ?s = "examplePlugin (js ''docs'') [js ''a.md'', js ''d'']"
  let ?a = "localFile (js ''docs'') (TFile (js ''a.md'')) (js ''hello'')"
  let ?b = "localFile (js ''docs'') (TFile (js ''d/b.md'')) []"
  let ?R = "[(js ''docs/a.md'', helloSha), (js ''docs/d/b.md'', helloSha)]"
  let ?M = "mapRemoteFiles (normalizeRepoFolder (repoFolder (settings ?s)))
      [blobObj (js ''docs/a.md'') helloSha, blobObj (js ''docs/d/b.md'') helloSha] []"
  have valid: "githubToken (settings ?s) \<noteq> []" "repoUrl (settings ?s) \<noteq> []"
    "repoBranch (settings ?s) \<noteq> []"
    by (simp_all add: examplePlugin_sel literal_nonempty)
  have parsed: "parseRepoUrl (repoUrl (settings ?s)) = Inr (js ''o'', js ''r'')"
    by (simp only: examplePlugin_sel parse_example)
  have gathered: "gatherLocalFiles (vault ?env) (normalizeRepoFolder (repoFolder (settings ?s)))
      (selectedPaths (settings ?s)) [] = Inr [?a, ?b]"
    by (simp only: examplePlugin_sel exampleEnv_sel gather_docs_a_d)
  have ref: "git_getRef (octokit ?env) (js ''o'') (js ''r'')
      (js ''heads/'' @ repoBranch (settings ?s)) = Inr (js ''c0'')"
    and commit: "git_getCommit (octokit ?env) (js ''o'') (js ''r'') (js ''c0'') = Inr (js ''t0'')"
    and listing: "git_getTree (octokit ?env) (js ''o'') (js ''r'') (js ''t0'') (js ''true'') =
      Inr [blobObj (js ''docs/a.md'') helloSha, blobObj (js ''docs/d/b.md'') helloSha]"
    by (simp_all only: exampleEnv_sel)
  have remote: "?M = ?R"
    by (simp only: examplePlugin_sel remote_docs_a_b)
  have hello: "gitBlobSha1 (js ''hello'') = Inr helloSha"
    by (simp only: gitBlobSha1_hello helloSha_def)
  have empty: "gitBlobSha1 [] \<noteq> Inr helloSha"
    by (simp only: gitBlobSha1_empty helloSha_def) (simp add: js_def)
  have differs: "map_option Inr (Map_get ?M (repoPath ?b)) \<noteq> Some (gitBlobSha1 (content ?b))"
    unfolding remote using empty
    by (simp add: localFile_sel repoPath_examples Map_get_def; simp add: js_def)
  have same: "\<forall>other \<in> set ([?a] @ []).
      map_option Inr (Map_get ?M (repoPath other)) = Some (gitBlobSha1 (content other))"
    unfolding remote using hello
    by (simp add: localFile_sel repoPath_examples Map_get_def)
  have keys: "set (Map_keys ?M) \<subseteq> repoPath ` set [?a, ?b]"
    unfolding remote
    by (simp add: localFile_sel repoPath_examples Map_keys_def)
  have split: "[?a, ?b] = [?a] @ ?b # []"
    by simp
  note sent = changed_entries_are_the_upserts_sent
      [OF valid parsed refl gathered ref commit listing refl refl,
        THEN conjunct2, THEN conjunct2, THEN conjunct1]
  then obtain tree rest where
    reqs: "drop (length (requests ?s)) (requests (snd (publishToGitHub ?env ?s))) =
         [GetRef (js ''o'') (js ''r'') (js ''heads/'' @ repoBranch (settings ?s)),
          GetCommit (js ''o'') (js ''r'') (js ''c0''),
          GetTree (js ''o'') (js ''r'') (js ''t0'') (js ''true'')]
         @ (if tree = [] then [] else CreateTree (js ''o'') (js ''r'') (js ''t0'') tree # rest)"
    and one: "\<forall>before changed after.
          [?a, ?b] = before @ changed # after \<and>
          map_option Inr (Map_get ?M (repoPath changed)) \<noteq> Some (gitBlobSha1 (content changed)) \<and>
          (\<forall>other \<in> set (before @ after).
             map_option Inr (Map_get ?M (repoPath other)) = Some (gitBlobSha1 (content other))) \<and>
          set (Map_keys ?M) \<subseteq> repoPath ` set [?a, ?b]
          \<longrightarrow> tree = [upsertItem changed]"
    by (elim exE conjE)
  from one split differs same keys have tree: "tree = [upsertItem ?b]"
    by blast
  have reads: "[GetRef (js ''o'') (js ''r'') (js ''heads/'' @ repoBranch (settings ?s)),
          GetCommit (js ''o'') (js ''r'') (js ''c0''),
          GetTree (js ''o'') (js ''r'') (js ''t0'') (js ''true'')] = exampleReads"
    by (simp add: examplePlugin_sel heads_main exampleReads_def)
  from reqs have "drop (length (requests ?s)) (requests (snd (publishToGitHub ?env ?s))) =
      exampleReads @ CreateTree (js ''o'') (js ''r'') (js ''t0'') [upsertItem ?b] # rest"
    unfolding tree reads by simp
  then have sent_tree: "\<exists>rest. drop (length (requests ?s)) (requests (snd (publishToGitHub ?env ?s))) =
      exampleReads @ CreateTree (js ''o'') (js ''r'') (js ''t0'') [upsertItem ?b] # rest"
    by (rule exI)
  from parsed gather_docs_a_d remote_docs_a_b hello empty sent_tree show ?thesis
    by (intro conjI)
qed
text \<open>
  C3 as stated fails: \<open>a.md\<close> is unchanged and \<open>d/b.md\<close> alone differs from the remote,
  but with \<open>a.md\<close>, the folder \<open>d\<close> and \<open>d/b.md\<close> selected the changed file is gathered
  by two routes, and the tree passed to create-tree holds two upserts of it.
\<close>

theorem one_changed_file_two_upserts_counterexample:
  "gitBlobSha1 (js ''hello'') = Inr helloSha \<and>
   gitBlobSha1 [] \<noteq> Inr helloSha \<and>
   publishToGitHub
     (exampleEnv [blobObj (js ''docs/a.md'') helloSha, blobObj (js ''docs/d/b.md'') helloSha]
        (Inr ()))
     (examplePlugin (js ''docs'') [js ''a.md'', js ''d'', js ''d/b.md'']) =
   (None,
    exampleSynced (js ''docs'') [js ''a.md'', js ''d'', js ''d/b.md'']
      (exampleReads
       @ exampleWrites
           [upsertItem (localFile (js ''docs'') (TFile (js ''d/b.md'')) []),
            upsertItem (localFile (js ''docs'') (TFile (js ''d/b.md'')) [])]))"
proof (intro conjI)
  show "gitBlobSha1 (js ''hello'') = Inr helloSha"
    by (simp only: gitBlobSha1_hello helloSha_def)
  show "gitBlobSha1 [] \<noteq> Inr helloSha"
    by (simp only: gitBlobSha1_empty helloSha_def) (simp add: js_def)
  show "publishToGitHub
     (exampleEnv [blobObj (js ''docs/a.md'') helloSha, blobObj (js ''docs/d/b.md'') helloSha]
        (Inr ()))
     (examplePlugin (js ''docs'') [js ''a.md'', js ''d'', js ''d/b.md'']) =
   (None,
    exampleSynced (js ''docs'') [js ''a.md'', js ''d'', js ''d/b.md'']
      (exampleReads
       @ exampleWrites
           [upsertItem (localFile (js ''docs'') (TFile (js ''d/b.md'')) []),
            upsertItem (localFile (js ''docs'') (TFile (js ''d/b.md'')) [])]))"
    using publish_example [OF gather_docs_a_d_b prepare_docs_changed_twice, of "Inr ()"]
    by simp
qed

text \<open>
  At the root of the branch the statement above says nothing about the one changed
  entry: the remote map of an ordinary listing is empty there, so no gathered entry
  has its hash in it, and the tree passed to create-tree holds an upsert of the
  unchanged \<open>a.md\<close> beside that of the changed \<open>d/b.md\<close>.
\<close>

lemma root_upserts_unchanged_entry:
  "publishToGitHub
     (exampleEnv [blobObj (js ''a.md'') helloSha, blobObj (js ''d/b.md'') helloSha] (Inr ()))
     (examplePlugin [] [js ''a.md'', js ''d'']) =
   (None,
    exampleSynced [] [js ''a.md'', js ''d'']
      (exampleReads
       @ exampleWrites
           [upsertItem (localFile [] (TFile (js ''a.md'')) (js ''hello'')),
            upsertItem (localFile [] (TFile (js ''d/b.md'')) [])]))"
proof -
  have gathered: "gatherLocalFiles exampleVault (normalizeRepoFolder []) [js ''a.md'', js ''d''] [] =
      Inr [localFile [] (TFile (js ''a.md'')) (js ''hello''), localFile [] (TFile (js ''d/b.md'')) []]"
    by (simp only: normalize_examples)
       (simp add: example_eval getAbstractFileByPath_def vault_read_def)
  have remote: "mapRemoteFiles (normalizeRepoFolder [])
      [blobObj (js ''a.md'') helloSha, blobObj (js ''d/b.md'') helloSha] [] = []"
    by (simp only: normalize_examples) (simp add: example_eval inRepoFolder_def startsWith_def)
  have prepared: "prepareTree
      [localFile [] (TFile (js ''a.md'')) (js ''hello''), localFile [] (TFile (js ''d/b.md'')) []]
      (mapRemoteFiles (normalizeRepoFolder [])
         [blobObj (js ''a.md'') helloSha, blobObj (js ''d/b.md'') helloSha] []) =
      Inr [upsertItem (localFile [] (TFile (js ''a.md'')) (js ''hello'')),
           upsertItem (localFile [] (TFile (js ''d/b.md'')) [])]"
    by (simp only: remote) (simp add: prepareTree_eq Map_get_def Map_keys_def)
  from publish_example [OF gathered prepared, of "Inr ()"] show ?thesis
    by simp
qed

end
